theory Spec2Isabelle
  imports Main "HOL-Library.AList"
begin

section \<open>TLCAttendance: the program and its environment\<close>

text \<open>
  The program of \<^verbatim>\<open>src/TLCAttendance.py\<close> is a script that drives three libraries:
  configparser (the config file), openpyxl (the attendance workbook) and selenium (the
  browser). Its own code is embedded here function by function, as state-passing functions
  on a record of the object's fields. Everything the script does to the outside is appended
  to a trace of actions, and every answer of the outside is read from a \<open>world\<close>: a record
  of functions from the history of actions so far (the call being answered is its last
  element) to the answer, which may be an exception. A stateful, deterministic browser is
  such a function of the history.
\<close>

subsection \<open>Exceptions, selenium values, actions\<close>

datatype exn =
    TimeoutException
  | NoSuchElementException
  | KeyError string
  | Exception string

datatype By = ID | NAME | XPATH | CLASS_NAME

type_synonym locator = "By \<times> string"

type_synonym elem = nat

text \<open>The timeout handed to \<^verbatim>\<open>WebDriverWait\<close>: the script passes the config text in one
  place and the integer 10 in the other.\<close>

datatype timeout = TText string | TSecs nat

datatype cond =
    element_to_be_clickable locator
  | visibility_of_element_located locator
  | url_to_be string
  | any_of "cond list"

datatype chain_step =
    AClick elem
  | ASendKeys string
  | APause nat
  | AMoveToElement elem

text \<open>A cell value as openpyxl returns it: \<open>CNone\<close> is the value of an empty cell.
  (Floats, dates and booleans are outside the model.)\<close>

datatype cell_value = CNone | CStr string | CInt int

text \<open>A worksheet is given by what \<^verbatim>\<open>sheet['A']\<close> yields: the values of the cells of
  column A, rows 1 to the last used row of the sheet, top to bottom.\<close>

type_synonym worksheet = "cell_value list"

type_synonym workbook = "(string \<times> worksheet) list"

record configparser =
  defaults :: "(string \<times> string) list"
  sections :: "(string \<times> (string \<times> string) list) list"

datatype action =
    Print string
  | LogInfo string
  | Input string
  | GetPass string
  | ReadConfigFile string
  | WriteConfigFile string configparser
  | LoadWorkbook string
  | CloseWorkbook
  | Sleep nat
  | NewDriver string
  | DriverGet string
  | DriverClose
  | Until timeout cond
  | FindElement locator
  | FindChild elem locator
  | SendKeys elem string
  | Click elem
  | GetAttribute elem string
  | CurrentUrl
  | Capability string
  | SelectInit elem
  | FirstSelectedOption elem
  | Perform "chain_step list"
  | ExecuteScript string elem

subsection \<open>The world\<close>

text \<open>
  \<open>config_file\<close> and \<open>load_workbook\<close> are the two files the script reads; they do not change
  during a run. \<open>before_set\<close> and \<open>interpolate\<close> are configparser's value interpolation
  (\<^verbatim>\<open>%\<close> syntax), taken as given: \<open>before_set v\<close> is the exception raised when the value
  \<open>v\<close> is stored, \<open>interpolate c section option raw\<close> is what reading the raw value returns.
  The fields \<open>w_unit\<close>, \<open>w_str\<close>, \<open>w_attr\<close> and \<open>w_elem\<close> answer a call from the history
  of actions.

  Waits and reads of the current URL are answered from the page the browser shows. Time
  is counted in ticks of half a second, the poll interval of \<^verbatim>\<open>WebDriverWait\<close>.
  \<open>page_at cmds t\<close> is the page at tick \<open>t\<close> when the browser has received the commands
  \<open>cmds\<close>; \<open>None\<close> means the browser no longer answers (a closed window), and every command
  sent to it then raises. Only waits and sleeps take time. \<open>float_ticks\<close> is the conversion
  \<^verbatim>\<open>float(timeout)\<close> that \<^verbatim>\<open>WebDriverWait\<close> applies to a timeout given as text, in ticks, taken
  as given.
\<close>

record page =
  page_url :: string
  displayed :: "locator \<Rightarrow> bool"
  clickable :: "locator \<Rightarrow> bool"

record world =
  config_file :: "string \<Rightarrow> exn + configparser"
  load_workbook :: "string \<Rightarrow> exn + workbook"
  before_set :: "string \<Rightarrow> exn option"
  interpolate :: "configparser \<Rightarrow> string \<Rightarrow> string \<Rightarrow> string \<Rightarrow> exn + string"
  w_unit :: "action list \<Rightarrow> exn option"
  w_str :: "action list \<Rightarrow> exn + string"
  page_at :: "action list \<Rightarrow> nat \<Rightarrow> page option"
  float_ticks :: "string \<Rightarrow> exn + nat"
  w_attr :: "action list \<Rightarrow> exn + string option"
  w_elem :: "action list \<Rightarrow> exn + elem"

subsection \<open>The object\<close>

record args =
  arg_filename :: string
  arg_event :: string
  arg_log :: string
  arg_config :: string

record tlc =
  args :: args
  trace :: "action list"
  config :: configparser
  configChanged :: bool
  server :: string
  browser :: string
  sheetName :: string
  email :: string
  initial_wait_secs :: string
  BASE_URL :: string
  DASHBOARD_URL :: string
  LOGIN_URL :: string
  driver :: bool
  attendees :: "cell_value list"
  clock :: nat

type_synonym 'a run = "(exn + 'a) \<times> tlc"

definition emit :: "action \<Rightarrow> tlc \<Rightarrow> tlc" where
  "emit a st = st\<lparr>trace := trace st @ [a]\<rparr>"

definition ok :: "'a \<Rightarrow> tlc \<Rightarrow> 'a run" where
  "ok x st = (Inr x, st)"

definition say :: "action \<Rightarrow> tlc \<Rightarrow> unit run" where
  "say a st = (Inr (), emit a st)"

definition then_do :: "(tlc \<Rightarrow> 'a run) \<Rightarrow> ('a \<Rightarrow> tlc \<Rightarrow> 'b run) \<Rightarrow> tlc \<Rightarrow> 'b run" where
  "then_do m f st = (case m st of (Inl e, st') \<Rightarrow> (Inl e, st') | (Inr x, st') \<Rightarrow> f x st')"

definition call_unit :: "world \<Rightarrow> action \<Rightarrow> tlc \<Rightarrow> unit run" where
  "call_unit w a st =
     (let st' = emit a st
      in (case w_unit w (trace st') of None \<Rightarrow> Inr () | Some e \<Rightarrow> Inl e, st'))"

definition call_str :: "world \<Rightarrow> action \<Rightarrow> tlc \<Rightarrow> string run" where
  "call_str w a st = (let st' = emit a st in (w_str w (trace st'), st'))"

text \<open>The commands in a history: what the browser has received. Lookups, reads and waits
  are not among them.\<close>

fun is_command :: "action \<Rightarrow> bool" where
  "is_command (NewDriver k) = True"
| "is_command (DriverGet u) = True"
| "is_command DriverClose = True"
| "is_command (SendKeys e s) = True"
| "is_command (Click e) = True"
| "is_command (Perform steps) = True"
| "is_command (ExecuteScript script e) = True"
| "is_command _ = False"

definition commands :: "action list \<Rightarrow> action list" where
  "commands h = filter is_command h"

text \<open>\<^verbatim>\<open>time.sleep(n)\<close>: \<open>n\<close> seconds are \<open>2 * n\<close> ticks.\<close>

definition sleep :: "nat \<Rightarrow> tlc \<Rightarrow> unit run" where
  "sleep n st = (Inr (), (emit (Sleep n) st)\<lparr>clock := clock st + 2 * n\<rparr>)"

text \<open>\<^verbatim>\<open>self.driver.current_url\<close>: the URL of the page shown now.\<close>

definition current_url :: "world \<Rightarrow> tlc \<Rightarrow> string run" where
  "current_url w st =
     (let st' = emit CurrentUrl st
      in (case page_at w (commands (trace st')) (clock st') of
            None \<Rightarrow> Inl (Exception ''WebDriverException'')
          | Some pg \<Rightarrow> Inr (page_url pg), st'))"

text \<open>
  One evaluation of an expected condition on the page shown. On a browser that no longer
  answers a condition raises; \<^verbatim>\<open>any_of\<close> swallows what its members raise and is false then.
\<close>

datatype verdict = Holds | Fails | Raises exn

fun check :: "cond \<Rightarrow> page option \<Rightarrow> verdict" where
  "check (any_of cs) pg = (if list_ex (\<lambda>c. check c pg = Holds) cs then Holds else Fails)"
| "check c None = Raises (Exception ''WebDriverException'')"
| "check (url_to_be u) (Some pg) = (if page_url pg = u then Holds else Fails)"
| "check (visibility_of_element_located l) (Some pg) = (if displayed pg l then Holds else Fails)"
| "check (element_to_be_clickable l) (Some pg) = (if clickable pg l then Holds else Fails)"

text \<open>
  The loop of \<^verbatim>\<open>WebDriverWait.until\<close> on the pages \<open>pages\<close>, from tick \<open>t\<close> with \<open>n\<close> ticks of
  timeout: the condition is evaluated at once and after every tick until it holds; when
  it has failed at the last tick (\<open>t + n\<close>) the wait raises \<^verbatim>\<open>TimeoutException\<close> one tick
  later. The result comes with the tick at which the wait ends.
\<close>

fun poll :: "(nat \<Rightarrow> page option) \<Rightarrow> cond \<Rightarrow> nat \<Rightarrow> nat \<Rightarrow> (exn + unit) \<times> nat" where
  "poll pages c t 0 =
     (case check c (pages t) of
        Holds \<Rightarrow> (Inr (), t)
      | Raises e \<Rightarrow> (Inl e, t)
      | Fails \<Rightarrow> (Inl TimeoutException, t + 1))"
| "poll pages c t (Suc n) =
     (case check c (pages t) of
        Holds \<Rightarrow> (Inr (), t)
      | Raises e \<Rightarrow> (Inl e, t)
      | Fails \<Rightarrow> poll pages c (t + 1) n)"

definition ticks :: "world \<Rightarrow> timeout \<Rightarrow> exn + nat" where
  "ticks w t = (case t of TSecs n \<Rightarrow> Inr (2 * n) | TText s \<Rightarrow> float_ticks w s)"

text \<open>\<^verbatim>\<open>WebDriverWait(self.driver, t).until(c)\<close>\<close>

definition until :: "world \<Rightarrow> timeout \<Rightarrow> cond \<Rightarrow> tlc \<Rightarrow> unit run" where
  "until w t c st =
     (case ticks w t of
        Inl e \<Rightarrow> (Inl e, st)
      | Inr n \<Rightarrow>
          (let st' = emit (Until t c) st
           in case poll (page_at w (commands (trace st'))) c (clock st') n of
                (r, t') \<Rightarrow> (r, st'\<lparr>clock := t'\<rparr>)))"

text \<open>A wait whose result, the element awaited, is used.\<close>

definition until_elem :: "world \<Rightarrow> timeout \<Rightarrow> cond \<Rightarrow> tlc \<Rightarrow> elem run" where
  "until_elem w t c =
     then_do (until w t c) (\<lambda>_ st. (w_elem w (trace st), st))"

definition call_attr :: "world \<Rightarrow> action \<Rightarrow> tlc \<Rightarrow> (string option) run" where
  "call_attr w a st = (let st' = emit a st in (w_attr w (trace st'), st'))"

definition call_elem :: "world \<Rightarrow> action \<Rightarrow> tlc \<Rightarrow> elem run" where
  "call_elem w a st = (let st' = emit a st in (w_elem w (trace st'), st'))"

text \<open>\<^verbatim>\<open>__init__\<close>: the parsed command line, three log lines, no driver yet. Attributes the
  script sets later (\<^verbatim>\<open>server\<close>, \<^verbatim>\<open>attendees\<close>, ...) start empty here. \<open>clock\<close> is not a
  field of the object: it is the time of the run, in ticks.\<close>

definition init :: "args \<Rightarrow> tlc" where
  "init a =
     \<lparr> args = a,
       trace = [ LogInfo (''Using attendance file: '' @ arg_filename a),
                 LogInfo (''Using log file: '' @ arg_log a),
                 LogInfo (''Using config file: '' @ arg_config a) ],
       config = \<lparr> defaults = [], sections = [] \<rparr>,
       configChanged = False,
       server = [], browser = [], sheetName = [], email = [], initial_wait_secs = [],
       BASE_URL = [], DASHBOARD_URL = [], LOGIN_URL = [],
       driver = False,
       attendees = [],
       clock = 0 \<rparr>"

subsection \<open>Roster loading\<close>

definition sheetnames :: "workbook \<Rightarrow> string list" where
  "sheetnames workBook = map fst workBook"

text \<open>The \<^verbatim>\<open>for col in attendanceSheet['A']\<close> loop: one append per cell.\<close>

fun append_cells :: "cell_value list \<Rightarrow> tlc \<Rightarrow> tlc" where
  "append_cells [] st = st"
| "append_cells (col # cols) st = append_cells cols (st\<lparr>attendees := attendees st @ [col]\<rparr>)"

definition loadAttendanceData :: "world \<Rightarrow> tlc \<Rightarrow> nat run" where
  "loadAttendanceData w st0 =
     (let st1 = emit (LoadWorkbook (arg_filename (args st0))) (st0\<lparr>attendees := []\<rparr>)
      in case load_workbook w (arg_filename (args st0)) of
           Inl e \<Rightarrow> (Inl e, st1)
         | Inr workBook \<Rightarrow>
             if sheetName st1 \<in> set (sheetnames workBook) then
               (case map_of workBook (sheetName st1) of
                  None \<Rightarrow> (Inl (KeyError (sheetName st1)), st1)
                | Some attendanceSheet \<Rightarrow>
                    (let st2 = emit CloseWorkbook (append_cells attendanceSheet st1)
                     in (Inr (length (attendees st2)), st2)))
             else
               (let st2 = emit (Print (''ERROR: Sheet '' @ sheetName st1 @ '' not found in ''
                                        @ arg_filename (args st1))) st1
                in (Inr (length (attendees st2)), st2)))"

text \<open>The number of non-empty cells of a column, in the spec's words.\<close>

definition non_empty_cells :: "worksheet \<Rightarrow> nat" where
  "non_empty_cells cells = length (filter (\<lambda>c. c \<noteq> CNone) cells)"

subsection \<open>configparser\<close>

text \<open>
  The operations of \<^verbatim>\<open>configparser.ConfigParser\<close> that the script calls, on the parsed
  content of the file: the options of the \<^verbatim>\<open>DEFAULT\<close> section and the other sections
  in file order. Option names are lower-cased (\<^verbatim>\<open>optionxform\<close>), and an option of the
  \<^verbatim>\<open>DEFAULT\<close> section is visible in every section.
\<close>

definition DEFAULTSECT :: string where
  "DEFAULTSECT = ''DEFAULT''"

definition lower_char :: "char \<Rightarrow> char" where
  "lower_char c =
     (let n = (of_char c :: nat) in if 65 \<le> n \<and> n \<le> 90 then char_of (n + 32) else c)"

definition optionxform :: "string \<Rightarrow> string" where
  "optionxform s = map lower_char s"

text \<open>\<^verbatim>\<open>section in self.config\<close>\<close>

definition contains_section :: "configparser \<Rightarrow> string \<Rightarrow> bool" where
  "contains_section c s = (s = DEFAULTSECT \<or> s \<in> set (map fst (sections c)))"

text \<open>\<^verbatim>\<open>self.config[section] = {}\<close>, for a section that is not in the config.\<close>

definition add_empty_section :: "configparser \<Rightarrow> string \<Rightarrow> configparser" where
  "add_empty_section c s = c\<lparr>sections := sections c @ [(s, [])]\<rparr>"

text \<open>\<^verbatim>\<open>fieldName in self.config[section]\<close>, which is \<^verbatim>\<open>has_option\<close>.\<close>

definition has_option :: "configparser \<Rightarrow> string \<Rightarrow> string \<Rightarrow> bool" where
  "has_option c s option =
     (if s = [] \<or> s = DEFAULTSECT then optionxform option \<in> set (map fst (defaults c))
      else case map_of (sections c) s of
             None \<Rightarrow> False
           | Some sect \<Rightarrow> optionxform option \<in> set (map fst sect)
                          \<or> optionxform option \<in> set (map fst (defaults c)))"

text \<open>\<^verbatim>\<open>self.config[section][fieldName] = value\<close>, which is \<^verbatim>\<open>set\<close>.\<close>

definition set_option :: "world \<Rightarrow> configparser \<Rightarrow> string \<Rightarrow> string \<Rightarrow> string \<Rightarrow> exn + configparser" where
  "set_option w c s option v =
     (case (if v \<noteq> [] then before_set w v else None) of
        Some e \<Rightarrow> Inl e
      | None \<Rightarrow>
          if s = [] \<or> s = DEFAULTSECT then
            Inr (c\<lparr>defaults := AList.update (optionxform option) v (defaults c)\<rparr>)
          else (case map_of (sections c) s of
                  None \<Rightarrow> Inl (Exception ''NoSectionError'')
                | Some sect \<Rightarrow>
                    Inr (c\<lparr>sections :=
                      AList.update s (AList.update (optionxform option) v sect) (sections c)\<rparr>)))"

text \<open>The raw value \<^verbatim>\<open>get\<close> finds: the section's own options first, then the defaults.\<close>

definition raw_get :: "configparser \<Rightarrow> string \<Rightarrow> string \<Rightarrow> string option" where
  "raw_get c s option =
     (case map_of (case map_of (sections c) s of None \<Rightarrow> [] | Some sect \<Rightarrow> sect)
                  (optionxform option) of
        Some v \<Rightarrow> Some v
      | None \<Rightarrow> map_of (defaults c) (optionxform option))"

text \<open>\<^verbatim>\<open>self.config[section][fieldName]\<close> read.\<close>

definition getitem :: "world \<Rightarrow> configparser \<Rightarrow> string \<Rightarrow> string \<Rightarrow> exn + string" where
  "getitem w c s key =
     (if \<not> has_option c s key then Inl (KeyError key)
      else case raw_get c s key of
             None \<Rightarrow> Inl (KeyError key)
           | Some v \<Rightarrow> interpolate w c s (optionxform key) v)"

subsection \<open>Configuration resolution\<close>

text \<open>\<^verbatim>\<open>setattr(self, fieldName, value)\<close> for the five names the script uses.\<close>

definition setattr_tlc :: "string \<Rightarrow> string \<Rightarrow> tlc \<Rightarrow> tlc" where
  "setattr_tlc fieldName v st =
     (if fieldName = ''server'' then st\<lparr>server := v\<rparr>
      else if fieldName = ''browser'' then st\<lparr>browser := v\<rparr>
      else if fieldName = ''sheetName'' then st\<lparr>sheetName := v\<rparr>
      else if fieldName = ''email'' then st\<lparr>email := v\<rparr>
      else if fieldName = ''initial_wait_secs'' then st\<lparr>initial_wait_secs := v\<rparr>
      else st)"

definition ensure_section :: "string \<Rightarrow> tlc \<Rightarrow> tlc" where
  "ensure_section s st =
     (if \<not> contains_section (config st) s
      then st\<lparr>config := add_empty_section (config st) s\<rparr> else st)"

text \<open>\<^verbatim>\<open>self.config[section][fieldName] = value; self.configChanged = True\<close>\<close>

definition store_value :: "world \<Rightarrow> string \<Rightarrow> string \<Rightarrow> string \<Rightarrow> tlc \<Rightarrow> unit run" where
  "store_value w s fieldName v st =
     (case set_option w (config st) s fieldName v of
        Inl e \<Rightarrow> (Inl e, st)
      | Inr c \<Rightarrow> (Inr (), st\<lparr>config := c, configChanged := True\<rparr>))"

text \<open>The branch of \<^verbatim>\<open>readConfigItem\<close> taken when the option is missing.\<close>

definition ask_config_item :: "world \<Rightarrow> string \<Rightarrow> string \<Rightarrow> string \<Rightarrow> string \<Rightarrow> tlc \<Rightarrow> unit run" where
  "ask_config_item w s fieldName promptStr defaultValue =
     then_do (say (LogInfo (''Config file missing ['' @ s @ ''] '' @ fieldName))) (\<lambda>_.
     then_do (call_str w (Input promptStr)) (\<lambda>answer.
     then_do (if answer = []
              then then_do (say (LogInfo (''No value provided for ['' @ s @ ''] '' @ fieldName
                                           @ '', using '' @ defaultValue)))
                           (\<lambda>_. ok defaultValue)
              else ok answer) (\<lambda>v.
     store_value w s fieldName v)))"

text \<open>\<^verbatim>\<open>setattr(self, fieldName, self.config[section][fieldName])\<close>\<close>

definition store_attr :: "world \<Rightarrow> string \<Rightarrow> string \<Rightarrow> tlc \<Rightarrow> unit run" where
  "store_attr w s fieldName st =
     (case getitem w (config st) s fieldName of
        Inl e \<Rightarrow> (Inl e, st)
      | Inr v \<Rightarrow> (Inr (), setattr_tlc fieldName v st))"

definition readConfigItem :: "world \<Rightarrow> string \<Rightarrow> string \<Rightarrow> string \<Rightarrow> string \<Rightarrow> tlc \<Rightarrow> unit run" where
  "readConfigItem w s fieldName promptStr defaultValue =
     then_do (\<lambda>st. ok () (ensure_section s st)) (\<lambda>_.
     then_do (\<lambda>st. if \<not> has_option (config st) s fieldName
                   then ask_config_item w s fieldName promptStr defaultValue st
                   else ok () st) (\<lambda>_.
     store_attr w s fieldName))"

definition setURLs :: "tlc \<Rightarrow> tlc" where
  "setURLs st =
     (let base = ''https://'' @ server st @ ''/''
      in st\<lparr>BASE_URL := base, DASHBOARD_URL := base @ ''dashboard'',
            LOGIN_URL := base @ ''login''\<rparr>)"

text \<open>\<^verbatim>\<open>self.configChanged = False\<close> and the read of the config file.\<close>

definition open_config :: "world \<Rightarrow> tlc \<Rightarrow> unit run" where
  "open_config w st =
     (let st1 = emit (ReadConfigFile (arg_config (args st))) (st\<lparr>configChanged := False\<rparr>)
      in case config_file w (arg_config (args st)) of
           Inl e \<Rightarrow> (Inl e, st1)
         | Inr c \<Rightarrow> (Inr (), st1\<lparr>config := c\<rparr>))"

text \<open>The \<^verbatim>\<open>if self.configChanged\<close> block that ends \<^verbatim>\<open>readConfig\<close>.\<close>

definition write_config :: "world \<Rightarrow> tlc \<Rightarrow> unit run" where
  "write_config w st =
     (if configChanged st then
        then_do (\<lambda>st. say (LogInfo (''Writing changes to config file ''
                                     @ arg_config (args st))) st)
                (\<lambda>_ st. call_unit w (WriteConfigFile (arg_config (args st)) (config st)) st) st
      else ok () st)"

definition readConfig :: "world \<Rightarrow> tlc \<Rightarrow> unit run" where
  "readConfig w =
     then_do (open_config w) (\<lambda>_.
     then_do (readConfigItem w DEFAULTSECT ''server'' ''Trail Life Connect website: ''
                ''www.traillifeconnect.com'') (\<lambda>_.
     then_do (\<lambda>st. ok () (setURLs st)) (\<lambda>_.
     then_do (readConfigItem w DEFAULTSECT ''browser''
                ''Web browser to use (Firefox, Chrome, Edge): '' ''Firefox'') (\<lambda>_.
     then_do (readConfigItem w DEFAULTSECT ''sheetName'' ''Attendance sheet name: ''
                ''Attendance'') (\<lambda>_.
     then_do (\<lambda>st. readConfigItem w (server st) ''email''
                ''Trail Life Connect username: '' ''user@example.com'' st) (\<lambda>_.
     then_do (\<lambda>st. readConfigItem w (server st) ''initial_wait_secs''
                ''Time to wait for website in seconds: '' ''30'' st) (\<lambda>_.
     write_config w)))))))"

subsection \<open>Formatting\<close>

text \<open>\<^verbatim>\<open>str\<close> of a number, of a cell value and of an attribute value, as the f-strings
  of the script print them.\<close>

function show_nat :: "nat \<Rightarrow> string" where
  "show_nat n =
     (if n < 10 then [char_of (48 + n)] else show_nat (n div 10) @ [char_of (48 + n mod 10)])"
  by pat_completeness auto
termination
  by (relation "measure (\<lambda>n. n)") auto

definition show_int :: "int \<Rightarrow> string" where
  "show_int i = (if i < 0 then CHR ''-'' # show_nat (nat (- i)) else show_nat (nat i))"

fun py_str :: "cell_value \<Rightarrow> string" where
  "py_str CNone = ''None''"
| "py_str (CStr s) = s"
| "py_str (CInt i) = show_int i"

fun py_str_opt :: "string option \<Rightarrow> string" where
  "py_str_opt None = ''None''"
| "py_str_opt (Some s) = s"

text \<open>\<^verbatim>\<open>sub in s\<close> for strings.\<close>

fun contains :: "string \<Rightarrow> string \<Rightarrow> bool" where
  "contains sub [] = (sub = [])"
| "contains sub (c # cs) = (take (length sub) (c # cs) = sub \<or> contains sub cs)"

subsection \<open>Login\<close>

definition getDriver :: "world \<Rightarrow> tlc \<Rightarrow> unit run" where
  "getDriver w st =
     then_do (call_unit w (NewDriver
                (if browser st = ''Firefox'' then ''Firefox''
                 else if browser st = ''Chrome'' then ''Chrome''
                 else if browser st = ''Edge'' then ''Edge''
                 else ''Firefox'')))
             (\<lambda>_ st'. ok () (st'\<lparr>driver := True\<rparr>)) st"

text \<open>\<^verbatim>\<open>login\<close> up to the loop: the password prompt, the driver, the page, the wait for
  the login button (with the configured timeout) and the email field.\<close>

definition login_prelude :: "world \<Rightarrow> tlc \<Rightarrow> (string \<times> elem) run" where
  "login_prelude w =
     then_do (\<lambda>st. say (Print (''Username: '' @ email st)) st) (\<lambda>_.
     then_do (\<lambda>st. call_str w (GetPass (''Password for '' @ server st @ '': '')) st) (\<lambda>tlcPass.
     then_do (getDriver w) (\<lambda>_.
     then_do (\<lambda>st. call_unit w (DriverGet (BASE_URL st)) st) (\<lambda>_.
     then_do (\<lambda>st. until_elem w (TText (initial_wait_secs st))
                      (element_to_be_clickable (NAME, ''login-button'')) st) (\<lambda>loginBtn.
     then_do (call_elem w (FindElement (ID, ''loginform-email''))) (\<lambda>emailField.
     then_do (\<lambda>st. call_unit w (SendKeys emailField (email st)) st) (\<lambda>_.
     ok (tlcPass, loginBtn))))))))"

text \<open>The first three statements of the loop body: the credentials are submitted.\<close>

definition login_submit :: "world \<Rightarrow> string \<Rightarrow> elem \<Rightarrow> tlc \<Rightarrow> unit run" where
  "login_submit w tlcPass loginBtn =
     then_do (call_elem w (FindElement (ID, ''loginform-password''))) (\<lambda>passField.
     then_do (call_unit w (SendKeys passField tlcPass)) (\<lambda>_.
     call_unit w (Click loginBtn)))"

text \<open>The condition awaited after the click, by \<^verbatim>\<open>WebDriverWait(self.driver, 10)\<close>.\<close>

definition login_conditions :: "tlc \<Rightarrow> cond" where
  "login_conditions st =
     any_of [visibility_of_element_located (CLASS_NAME, ''help-block-error''),
             url_to_be (DASHBOARD_URL st)]"

text \<open>The \<^verbatim>\<open>while not loginComplete\<close> loop. \<open>Inr False\<close> is the \<^verbatim>\<open>return False\<close> inside
  the loop, \<open>Inr True\<close> the \<^verbatim>\<open>return True\<close> after it.\<close>

function login_loop :: "world \<Rightarrow> string \<Rightarrow> elem \<Rightarrow> bool \<Rightarrow> tlc \<Rightarrow> bool run" where
  "login_loop w tlcPass loginBtn loginComplete st =
     (if \<not> loginComplete then
        (case login_submit w tlcPass loginBtn st of
           (Inl e, st1) \<Rightarrow> (Inl e, st1)
         | (Inr _, st1) \<Rightarrow>
            (case until w (TSecs 10) (login_conditions st1) st1 of
               (Inl e, st2) \<Rightarrow>
                 (if e = TimeoutException then
                    (case current_url w st2 of
                       (Inl e', st3) \<Rightarrow> (Inl e', st3)
                     | (Inr url, st3) \<Rightarrow>
                         (Inr False, emit (Print (''ERROR: Login failed '' @ url)) st3))
                  else (Inl e, st2))
             | (Inr _, st2) \<Rightarrow>
                 (case current_url w st2 of
                    (Inl e, st3) \<Rightarrow> (Inl e, st3)
                  | (Inr url, st3) \<Rightarrow>
                      if url = DASHBOARD_URL st3 then login_loop w tlcPass loginBtn True st3
                      else (case current_url w st3 of
                              (Inl e, st4) \<Rightarrow> (Inl e, st4)
                            | (Inr url', st4) \<Rightarrow>
                                (Inr False,
                                 emit (Print (''ERROR: Failed to load dashboard after login ''
                                               @ url')) st4)))))
      else (Inr True, st))"
  by pat_completeness auto
termination
  by (relation "measure (\<lambda>(w, tlcPass, loginBtn, loginComplete, st). if loginComplete then 0 else 1)")
     auto

definition login :: "world \<Rightarrow> tlc \<Rightarrow> bool run" where
  "login w =
     then_do (login_prelude w) (\<lambda>(tlcPass, loginBtn). login_loop w tlcPass loginBtn False)"

definition logout :: "world \<Rightarrow> tlc \<Rightarrow> unit run" where
  "logout w =
     then_do (\<lambda>st. call_unit w (DriverGet (''https://'' @ server st @ ''/logout'')) st) (\<lambda>_.
     call_unit w DriverClose)"

subsection \<open>Attendance marking\<close>

definition ID_LESSON_PLAN_CBOX :: string where
  "ID_LESSON_PLAN_CBOX = ''use-lesson-plans''"

text \<open>\<^verbatim>\<open>Keys.ENTER\<close>, the code point U+E007, in UTF-8.\<close>

definition KEYS_ENTER :: string where
  "KEYS_ENTER = [char_of (238::nat), char_of (128::nat), char_of (135::nat)]"

text \<open>\<^verbatim>\<open>recordAttendance\<close> up to the loop: the attendance page, the event selection, the
  lesson-plan toggle. Its result is \<^verbatim>\<open>selectedEventValue\<close>.\<close>

definition record_prelude :: "world \<Rightarrow> tlc \<Rightarrow> (string option) run" where
  "record_prelude w =
     then_do (\<lambda>st. call_unit w (DriverGet (''https://'' @ server st @ ''/attendance'')) st) (\<lambda>_.
     then_do (sleep 2) (\<lambda>_.
     then_do (\<lambda>st. say (Print (''Select event: '' @ arg_event (args st))) st) (\<lambda>_.
     then_do (call_elem w (FindElement (ID, ''event-id''))) (\<lambda>eventIdSelectElement.
     then_do (call_unit w (SelectInit eventIdSelectElement)) (\<lambda>_.
     then_do (call_elem w (FindElement (ID, ''select2-event-id-container''))) (\<lambda>eventIdClickable.
     then_do (\<lambda>st. call_unit w (Perform [AClick eventIdClickable, ASendKeys (arg_event (args st)),
                                          APause 1, ASendKeys KEYS_ENTER]) st) (\<lambda>_.
     then_do (call_elem w (FirstSelectedOption eventIdSelectElement)) (\<lambda>selectedOption.
     then_do (call_attr w (GetAttribute selectedOption ''value'')) (\<lambda>selectedEventValue.
     then_do (say (Print (''Selected option code: '' @ py_str_opt selectedEventValue))) (\<lambda>_.
     then_do (sleep 1) (\<lambda>_.
     then_do (say (Print ''Check use lesson plan'')) (\<lambda>_.
     then_do (call_elem w (FindElement (ID, ID_LESSON_PLAN_CBOX))) (\<lambda>useLessonPlansInput.
     then_do (call_attr w (GetAttribute useLessonPlansInput ''value'')) (\<lambda>lessonPlanChecked.
     then_do (say (Print (''Lesson plan checked: '' @ py_str_opt lessonPlanChecked))) (\<lambda>_.
     then_do (if lessonPlanChecked = Some ''0'' then
                then_do (call_elem w (FindChild useLessonPlansInput (XPATH, ''..''))) (\<lambda>parent.
                then_do (call_unit w (Click parent)) (\<lambda>_.
                sleep 1))
              else ok ()) (\<lambda>_.
     ok selectedEventValue))))))))))))))))"

definition attendeeCboxId :: "cell_value \<Rightarrow> string option \<Rightarrow> string" where
  "attendeeCboxId attendee selectedEventValue =
     py_str attendee @ ''-'' @ py_str_opt selectedEventValue @ ''-'' @ ''attended''"

definition attendeeXPath :: "cell_value \<Rightarrow> string option \<Rightarrow> string" where
  "attendeeXPath attendee selectedEventValue =
     ''//input[@id = '' @ [CHR 0x27] @ attendeeCboxId attendee selectedEventValue
       @ [CHR 0x27] @ '']''"

definition scrollFirefox :: "world \<Rightarrow> elem \<Rightarrow> tlc \<Rightarrow> unit run" where
  "scrollFirefox w element = call_unit w (ExecuteScript ''arguments[0].scrollIntoView()'' element)"

text \<open>The branch of the loop body for a checkbox whose value is \<^verbatim>\<open>'0'\<close>.\<close>

definition click_attendee :: "world \<Rightarrow> elem \<Rightarrow> tlc \<Rightarrow> unit run" where
  "click_attendee w attendeeCboxParent =
     then_do (call_str w (Capability ''browserName'')) (\<lambda>browserName.
     then_do (if contains ''firefox'' browserName then scrollFirefox w attendeeCboxParent
              else ok ()) (\<lambda>_.
     call_unit w (Perform [AMoveToElement attendeeCboxParent, APause 1,
                           AClick attendeeCboxParent])))"

text \<open>One pass of the body of \<^verbatim>\<open>for attendee in self.attendees\<close>.\<close>

definition mark_attendee :: "world \<Rightarrow> string option \<Rightarrow> cell_value \<Rightarrow> tlc \<Rightarrow> unit run" where
  "mark_attendee w selectedEventValue attendee =
     then_do (say (Print (''Check attendee: '' @ py_str attendee))) (\<lambda>_.
     then_do (say (Print (''Find attendee by xpath: ''
                          @ attendeeXPath attendee selectedEventValue))) (\<lambda>_.
     then_do (call_elem w (FindElement (XPATH, attendeeXPath attendee selectedEventValue)))
       (\<lambda>attendeeCboxInput.
     then_do (call_elem w (FindChild attendeeCboxInput (XPATH, ''..''))) (\<lambda>attendeeCboxParent.
     then_do (say (Print ''Before move to element'')) (\<lambda>_.
     then_do (call_attr w (GetAttribute attendeeCboxInput ''value'')) (\<lambda>attendeeCboxChecked.
     then_do (say (Print (''Attendee checkbox value: '' @ py_str_opt attendeeCboxChecked))) (\<lambda>_.
     if attendeeCboxChecked = Some ''0'' then click_attendee w attendeeCboxParent
     else say (Print ''Attendee checkbox already checked''))))))))"

fun mark_loop :: "world \<Rightarrow> string option \<Rightarrow> nat \<Rightarrow> cell_value list \<Rightarrow> tlc \<Rightarrow> nat run" where
  "mark_loop w selectedEventValue attendeeCount [] st = (Inr attendeeCount, st)"
| "mark_loop w selectedEventValue attendeeCount (attendee # rest) st =
     (case mark_attendee w selectedEventValue attendee st of
        (Inl e, st') \<Rightarrow> (Inl e, st')
      | (Inr _, st') \<Rightarrow> mark_loop w selectedEventValue (attendeeCount + 1) rest st')"

definition summary_line :: "nat \<Rightarrow> nat \<Rightarrow> string" where
  "summary_line attendeeCount n =
     ''End track attendance ('' @ show_nat attendeeCount @ '', '' @ show_nat n @ '')''"

definition recordAttendance :: "world \<Rightarrow> tlc \<Rightarrow> unit run" where
  "recordAttendance w =
     then_do (record_prelude w) (\<lambda>selectedEventValue.
     then_do (\<lambda>st. mark_loop w selectedEventValue 0 (attendees st) st) (\<lambda>attendeeCount st.
     say (Print (summary_line attendeeCount (length (attendees st)))) st))"

subsection \<open>The main sequence\<close>

definition after_login :: "world \<Rightarrow> tlc \<Rightarrow> unit run" where
  "after_login w =
     then_do (sleep 5) (\<lambda>_.
     then_do (loadAttendanceData w) (\<lambda>_.
     then_do (recordAttendance w) (\<lambda>_.
     then_do (sleep 5) (\<lambda>_.
     logout w))))"

definition main :: "world \<Rightarrow> args \<Rightarrow> unit run" where
  "main w a =
     then_do (readConfig w) (\<lambda>_.
     then_do (loadAttendanceData w) (\<lambda>count.
       if count = 0 then say (Print ''ERROR: No data found in spreadsheet.'')
       else then_do (login w) (\<lambda>success.
              if success then after_login w else ok ()))) (init a)"

section \<open>Predicates on traces\<close>

text \<open>\<open>adds P m\<close>: whatever \<open>m\<close> returns, it has only appended actions to the trace, and
  each of them satisfies \<open>P\<close>.\<close>

definition adds :: "(action \<Rightarrow> bool) \<Rightarrow> (tlc \<Rightarrow> 'a \<times> tlc) \<Rightarrow> bool" where
  "adds P m = (\<forall>st. \<exists>ev. trace (snd (m st)) = trace st @ ev \<and> list_all P ev)"

text \<open>The actions that touch neither the browser nor the password prompt.\<close>

fun offline :: "action \<Rightarrow> bool" where
  "offline (Print s) = True"
| "offline (LogInfo s) = True"
| "offline (Input s) = True"
| "offline (ReadConfigFile p) = True"
| "offline (WriteConfigFile p c) = True"
| "offline (LoadWorkbook f) = True"
| "offline CloseWorkbook = True"
| "offline _ = False"







text \<open>The actions counted for the login loop: the click that submits the credentials,
  and the lookup of the password field that opens each pass of the loop.\<close>

fun is_click :: "action \<Rightarrow> bool" where
  "is_click (Click e) = True"
| "is_click _ = False"

fun is_password_lookup :: "action \<Rightarrow> bool" where
  "is_password_lookup (FindElement l) = (l = (ID, ''loginform-password''))"
| "is_password_lookup _ = False"

text \<open>
  The five recognized keys with their section and prompt, in the order \<^verbatim>\<open>readConfig\<close>
  resolves them; \<open>srv\<close> is the resolved server name, which names the section of the last
  two.
\<close>

definition config_items :: "string \<Rightarrow> (string \<times> string \<times> string) list" where
  "config_items srv =
     [(DEFAULTSECT, ''server'', ''Trail Life Connect website: ''),
      (DEFAULTSECT, ''browser'', ''Web browser to use (Firefox, Chrome, Edge): ''),
      (DEFAULTSECT, ''sheetName'', ''Attendance sheet name: ''),
      (srv, ''email'', ''Trail Life Connect username: ''),
      (srv, ''initial_wait_secs'', ''Time to wait for website in seconds: '')]"

text \<open>In the words of the claim: the key is present in the file's section \<open>s\<close> itself.\<close>

definition own_option :: "configparser \<Rightarrow> string \<Rightarrow> string \<Rightarrow> bool" where
  "own_option c s key =
     (if s = DEFAULTSECT then optionxform key \<in> set (map fst (defaults c))
      else case map_of (sections c) s of
             None \<Rightarrow> False
           | Some sect \<Rightarrow> optionxform key \<in> set (map fst sect))"

text \<open>The key is in the file's section \<open>s\<close> or in its \<^verbatim>\<open>DEFAULT\<close> section (an empty section
  name stands for \<^verbatim>\<open>DEFAULT\<close>, as in configparser).\<close>

definition visible :: "configparser \<Rightarrow> string \<Rightarrow> string \<Rightarrow> bool" where
  "visible c s key =
     (optionxform key \<in> set (map fst (defaults c))
      \<or> (s \<noteq> [] \<and> own_option c s key))"

text \<open>The value stored under the (lower-case) option name \<open>k\<close> in section \<open>s\<close> itself.\<close>

definition file_value :: "configparser \<Rightarrow> string \<Rightarrow> string \<Rightarrow> string option" where
  "file_value c s k =
     (if s = DEFAULTSECT then map_of (defaults c) k
      else case map_of (sections c) s of None \<Rightarrow> None | Some sect \<Rightarrow> map_of sect k)"

text \<open>The prompts put to the operator, and the config files written, in a trace.\<close>

fun inputs :: "action list \<Rightarrow> string list" where
  "inputs [] = []"
| "inputs (Input p # ev) = p # inputs ev"
| "inputs (a # ev) = inputs ev"

fun config_writes :: "action list \<Rightarrow> (string \<times> configparser) list" where
  "config_writes [] = []"
| "config_writes (WriteConfigFile path c # ev) = (path, c) # config_writes ev"
| "config_writes (a # ev) = config_writes ev"

text \<open>What the loop body has appended when the lookup of an attendee's checkbox is
  answered: two prints and the lookup itself.\<close>

definition lookup_events :: "cell_value \<Rightarrow> string option \<Rightarrow> action list" where
  "lookup_events attendee v =
     [Print (''Check attendee: '' @ py_str attendee),
      Print (''Find attendee by xpath: '' @ attendeeXPath attendee v),
      FindElement (XPATH, attendeeXPath attendee v)]"

text \<open>What the loop body appends for a checkbox \<open>box\<close> that is found and is already set.\<close>

definition already_set_events ::
  "cell_value \<Rightarrow> string option \<Rightarrow> elem \<Rightarrow> string option \<Rightarrow> action list" where
  "already_set_events attendee v box checked =
     lookup_events attendee v
     @ [FindChild box (XPATH, ''..''),
        Print ''Before move to element'',
        GetAttribute box ''value'',
        Print (''Attendee checkbox value: '' @ py_str_opt checked),
        Print ''Attendee checkbox already checked'']"

text \<open>In the words of the claim: the identifier of the checkbox of the attendee \<open>a\<close> for
  the event value \<open>v\<close>, and the XPath query that locates the element with it.\<close>

definition claimed_checkbox_id :: "string \<Rightarrow> string \<Rightarrow> string" where
  "claimed_checkbox_id a v = a @ ''-'' @ v @ ''-attended''"

definition claimed_xpath :: "string \<Rightarrow> string \<Rightarrow> string" where
  "claimed_xpath a v =
     ''//input[@id = '' @ [CHR 0x27] @ claimed_checkbox_id a v @ [CHR 0x27] @ '']''"

text \<open>Clicks and scrolls: a direct click, an action chain, a script.\<close>

fun is_gesture :: "action \<Rightarrow> bool" where
  "is_gesture (Click e) = True"
| "is_gesture (Perform steps) = True"
| "is_gesture (ExecuteScript script e) = True"
| "is_gesture _ = False"

text \<open>The end-of-loop summary line.\<close>

fun is_summary :: "action \<Rightarrow> bool" where
  "is_summary (Print s) = (take 20 s = ''End track attendance'')"
| "is_summary _ = False"

text \<open>The XPath queries of the \<^verbatim>\<open>driver.find_element(By.XPATH, ...)\<close> calls in a trace.\<close>

fun xpath_lookups :: "action list \<Rightarrow> string list" where
  "xpath_lookups [] = []"
| "xpath_lookups (FindElement (XPATH, x) # ev) = x # xpath_lookups ev"
| "xpath_lookups (a # ev) = xpath_lookups ev"

section \<open>Concrete runs\<close>

text \<open>Worlds and states on which the theorems below are evaluated.\<close>

definition run_args :: args where
  "run_args = \<lparr> arg_filename = ''scan.xlsx'', arg_event = ''Troop Meeting'',
                 arg_log = ''./TLCAttendance.log'', arg_config = ''./.config.ini'' \<rparr>"

text \<open>A world in which only the attendance file matters.\<close>

definition roster_world :: "workbook \<Rightarrow> world" where
  "roster_world workBook =
     \<lparr> config_file = (\<lambda>p. Inr \<lparr> defaults = [], sections = [] \<rparr>),
       load_workbook = (\<lambda>f. if f = ''scan.xlsx'' then Inr workBook
                              else Inl (Exception ''FileNotFoundError'')),
       before_set = (\<lambda>v. None),
       interpolate = (\<lambda>c s k v. Inr v),
       w_unit = (\<lambda>h. None),
       w_str = (\<lambda>h. Inr []),
       page_at = (\<lambda>h t. None),
       float_ticks = (\<lambda>s. Inl (Exception ''ValueError'')),
       w_attr = (\<lambda>h. Inr None),
       w_elem = (\<lambda>h. Inr 0) \<rparr>"

definition roster_state :: tlc where
  "roster_state = (init run_args)\<lparr>sheetName := ''Attendance''\<rparr>"

definition header_book :: workbook where
  "header_book = [(''Notes'', [CStr ''x'']),
                  (''Attendance'', [CStr ''Member'', CStr ''A1'', CInt 1042])]"

text \<open>Column A with a gap: A1 and A3 hold identifiers, A2 is empty.\<close>

definition gap_cells :: worksheet where
  "gap_cells = [CStr ''A1'', CNone, CStr ''A2'']"

definition gap_book :: workbook where
  "gap_book = [(''Attendance'', gap_cells)]"

definition other_book :: workbook where
  "other_book = [(''Sheet1'', [CStr ''A1'', CStr ''A2''])]"

subsection \<open>A simulated portal\<close>

text \<open>
  A deterministic portal for the runs below. The operator answers every prompt with the
  Enter key alone and types the password \<^verbatim>\<open>secret\<close>. Every element is on the page except
  the inputs whose XPath is in \<open>missing\<close>; a looked-up element is named by the position of
  its lookup in the history, so that its attributes can be answered later. A checkbox
  whose XPath is in \<open>checked\<close> has the value \<^verbatim>\<open>1\<close>, every other input has \<^verbatim>\<open>0\<close>, the
  selected event option has \<^verbatim>\<open>7\<close>. Until the login button is clicked the browser shows
  the login page; from then on it shows the pages \<open>after\<close>. In the runs below the click
  comes at tick 0.
\<close>

fun nat_of_digits :: "nat \<Rightarrow> string \<Rightarrow> nat" where
  "nat_of_digits n [] = n"
| "nat_of_digits n (c # cs) = nat_of_digits (10 * n + (of_char c - 48)) cs"

definition login_page :: page where
  "login_page =
     \<lparr> page_url = ''https://tlc.example/login'',
       displayed = (\<lambda>l. False),
       clickable = (\<lambda>l. l = (NAME, ''login-button'')) \<rparr>"

definition error_page :: page where
  "error_page =
     \<lparr> page_url = ''https://tlc.example/login'',
       displayed = (\<lambda>l. l = (CLASS_NAME, ''help-block-error'')),
       clickable = (\<lambda>l. l = (NAME, ''login-button'')) \<rparr>"

definition dashboard_page :: page where
  "dashboard_page =
     \<lparr> page_url = ''https://tlc.example/dashboard'',
       displayed = (\<lambda>l. False),
       clickable = (\<lambda>l. False) \<rparr>"

text \<open>Four portals: one redirects to the dashboard at tick \<open>d\<close>; one shows the error
  indicator at tick \<open>d\<close>; one shows the error indicator at once and redirects at tick \<open>d\<close>
  all the same; and one whose window is closed.\<close>

definition redirect_at :: "nat \<Rightarrow> nat \<Rightarrow> page option" where
  "redirect_at d t = Some (if t < d then login_page else dashboard_page)"




definition portal_pages :: "(nat \<Rightarrow> page option) \<Rightarrow> action list \<Rightarrow> nat \<Rightarrow> page option" where
  "portal_pages after cmds t =
     (if list_ex (\<lambda>a. case a of Click e \<Rightarrow> True | _ \<Rightarrow> False) cmds then after t
      else Some login_page)"

definition portal_str :: "action list \<Rightarrow> exn + string" where
  "portal_str h =
     (case last h of
        GetPass p \<Rightarrow> Inr ''secret''
      | Capability k \<Rightarrow> if k = ''browserName'' then Inr ''firefox'' else Inl (KeyError k)
      | _ \<Rightarrow> Inr [])"

definition portal_elem :: "string list \<Rightarrow> action list \<Rightarrow> exn + elem" where
  "portal_elem missing h =
     (case last h of
        FindElement (XPATH, x) \<Rightarrow>
          if x \<in> set missing then Inl NoSuchElementException else Inr (length h)
      | _ \<Rightarrow> Inr (length h))"

definition portal_attr :: "string list \<Rightarrow> action list \<Rightarrow> exn + string option" where
  "portal_attr checked h =
     (case last h of
        GetAttribute e a \<Rightarrow>
          (case drop (e - 1) h of
             FindElement (XPATH, x) # _ \<Rightarrow> Inr (Some (if x \<in> set checked then ''1'' else ''0''))
           | FirstSelectedOption sel # _ \<Rightarrow> Inr (Some ''7'')
           | _ \<Rightarrow> Inr (Some ''0''))
      | _ \<Rightarrow> Inr None)"

definition portal_world ::
  "configparser \<Rightarrow> workbook \<Rightarrow> (nat \<Rightarrow> page option) \<Rightarrow> string list \<Rightarrow> string list \<Rightarrow> world" where
  "portal_world cfg workBook after missing checked =
     \<lparr> config_file = (\<lambda>p. Inr cfg),
       load_workbook = (\<lambda>f. Inr workBook),
       before_set = (\<lambda>v. None),
       interpolate = (\<lambda>c s k v. Inr v),
       w_unit = (\<lambda>h. None),
       w_str = portal_str,
       page_at = portal_pages after,
       float_ticks = (\<lambda>s. Inr (2 * nat_of_digits 0 s)),
       w_attr = portal_attr checked,
       w_elem = portal_elem missing \<rparr>"

text \<open>A config file with all five keys, and the state \<^verbatim>\<open>readConfig\<close> leaves from it.\<close>

definition site_config :: configparser where
  "site_config =
     \<lparr> defaults = [(''server'', ''tlc.example''), (''browser'', ''Firefox''),
                   (''sheetname'', ''Attendance'')],
       sections = [(''tlc.example'', [(''email'', ''leader@tlc.example''),
                                      (''initial_wait_secs'', ''30'')])] \<rparr>"

definition dashboard :: string where
  "dashboard = ''https://tlc.example/dashboard''"

definition two_book :: workbook where
  "two_book = [(''Attendance'', [CStr ''A1'', CStr ''A2''])]"

text \<open>The state after the first roster load from \<open>two_book\<close>.\<close>

definition loaded :: tlc where
  "loaded =
     (init run_args)\<lparr>
        trace := trace (init run_args)
                 @ [ReadConfigFile ''./.config.ini'', LoadWorkbook ''scan.xlsx'', CloseWorkbook],
        config := site_config,
        server := ''tlc.example'', browser := ''Firefox'', sheetName := ''Attendance'',
        email := ''leader@tlc.example'', initial_wait_secs := ''30'',
        BASE_URL := ''https://tlc.example/'',
        DASHBOARD_URL := ''https://tlc.example/dashboard'',
        LOGIN_URL := ''https://tlc.example/login'',
        attendees := [CStr ''A1'', CStr ''A2'']\<rparr>"

text \<open>The state when the login form is filled in up to the email, and the state right
  after the credentials are submitted.\<close>

definition at_form :: tlc where
  "at_form =
     loaded\<lparr>trace := trace loaded
                @ [Print ''Username: leader@tlc.example'',
                   GetPass ''Password for tlc.example: '', NewDriver ''Firefox'',
                   DriverGet ''https://tlc.example/'',
                   Until (TText ''30'') (element_to_be_clickable (NAME, ''login-button'')),
                   FindElement (ID, ''loginform-email''),
                   SendKeys 12 ''leader@tlc.example''],
            driver := True\<rparr>"

definition submitted :: tlc where
  "submitted =
     at_form\<lparr>trace := trace at_form
                @ [FindElement (ID, ''loginform-password''), SendKeys 14 ''secret'',
                   Click 11]\<rparr>"

text \<open>A logged-in state with three attendees, and the XPath of each one's checkbox for
  the event value \<^verbatim>\<open>7\<close>.\<close>

definition roster3 :: tlc where
  "roster3 = submitted\<lparr>attendees := [CStr ''A1'', CStr ''A2'', CStr ''A3'']\<rparr>"

definition box_A1 :: string where
  "box_A1 = ''//input[@id = '' @ [CHR 0x27] @ ''A1-7-attended'' @ [CHR 0x27] @ '']''"

definition box_A2 :: string where
  "box_A2 = ''//input[@id = '' @ [CHR 0x27] @ ''A2-7-attended'' @ [CHR 0x27] @ '']''"

definition box_A3 :: string where
  "box_A3 = ''//input[@id = '' @ [CHR 0x27] @ ''A3-7-attended'' @ [CHR 0x27] @ '']''"

text \<open>The XPath of the checkbox of the attendee whose cell holds the number 1042, and of
  the one whose cell is empty.\<close>

definition box_1042 :: string where
  "box_1042 = ''//input[@id = '' @ [CHR 0x27] @ ''1042-7-attended'' @ [CHR 0x27] @ '']''"

definition box_None :: string where
  "box_None = ''//input[@id = '' @ [CHR 0x27] @ ''None-7-attended'' @ [CHR 0x27] @ '']''"

text \<open>The state after \<open>record_prelude\<close> from \<open>roster3\<close> (its sleeps take 8 ticks), and
  the state after the loop body has then passed over \<^verbatim>\<open>A1\<close>, whose checkbox (element 37)
  is already set.\<close>

definition marking :: tlc where
  "marking =
     roster3\<lparr>trace := trace roster3
       @ [DriverGet ''https://tlc.example/attendance'', Sleep 2,
          Print ''Select event: Troop Meeting'', FindElement (ID, ''event-id''),
          SelectInit 20, FindElement (ID, ''select2-event-id-container''),
          Perform [AClick 22, ASendKeys ''Troop Meeting'', APause 1, ASendKeys KEYS_ENTER],
          FirstSelectedOption 20, GetAttribute 24 ''value'',
          Print ''Selected option code: 7'', Sleep 1,
          Print ''Check use lesson plan'', FindElement (ID, ''use-lesson-plans''),
          GetAttribute 29 ''value'', Print ''Lesson plan checked: 0'',
          FindChild 29 (XPATH, ''..''), Click 32, Sleep 1],
       clock := 8\<rparr>"

definition marked_A1 :: tlc where
  "marked_A1 =
     marking\<lparr>trace := trace marking
       @ already_set_events (CStr ''A1'') (Some ''7'') 37 (Some ''1'')\<rparr>"

text \<open>The state after the loop body has then passed over the cell that holds the number
  1042, whose checkbox (element 45, in the parent element 46) is not set: the body scrolls
  to it and clicks it with an action chain.\<close>

definition marked_1042 :: tlc where
  "marked_1042 =
     marked_A1\<lparr>trace := trace marked_A1
       @ [Print ''Check attendee: 1042'',
          Print (''Find attendee by xpath: '' @ box_1042),
          FindElement (XPATH, box_1042),
          FindChild 45 (XPATH, ''..''),
          Print ''Before move to element'',
          GetAttribute 45 ''value'',
          Print ''Attendee checkbox value: 0'',
          Capability ''browserName'',
          ExecuteScript ''arguments[0].scrollIntoView()'' 46,
          Perform [AMoveToElement 46, APause 1, AClick 46]]\<rparr>"

text \<open>A config file that lacks three keys, and one whose \<^verbatim>\<open>DEFAULT\<close> section holds the
  email while the server's own section does not exist.\<close>

definition partial_config :: configparser where
  "partial_config =
     \<lparr> defaults = [(''server'', ''tlc.example'')],
       sections = [(''tlc.example'', [(''email'', ''leader@tlc.example'')])] \<rparr>"

definition inherit_config :: configparser where
  "inherit_config =
     \<lparr> defaults = [(''server'', ''tlc.example''), (''browser'', ''Firefox''),
                   (''sheetname'', ''Attendance''), (''email'', ''leader@tlc.example'')],
       sections = [] \<rparr>"

definition configured :: tlc where
  "configured =
     (init run_args)\<lparr>
        trace := trace (init run_args) @ [ReadConfigFile ''./.config.ini''],
        config := site_config,
        server := ''tlc.example'', browser := ''Firefox'', sheetName := ''Attendance'',
        email := ''leader@tlc.example'', initial_wait_secs := ''30'',
        BASE_URL := ''https://tlc.example/'',
        DASHBOARD_URL := ''https://tlc.example/dashboard'',
        LOGIN_URL := ''https://tlc.example/login''\<rparr>"

section \<open>Sequencing and traces\<close>

lemma then_do_Inr: "m st = (Inr x, st') \<Longrightarrow> then_do m f st = f x st'"
  by (simp add: then_do_def)

lemma then_do_Inl: "m st = (Inl e, st') \<Longrightarrow> then_do m f st = (Inl e, st')"
  by (simp add: then_do_def)

lemma then_do_InrE:
  assumes "then_do m f st = (Inr y, st')"
  obtains x st1 where "m st = (Inr x, st1)" and "f x st1 = (Inr y, st')"
  using assms by (auto simp: then_do_def split: prod.splits sum.splits)

lemma addsD: "adds P m \<Longrightarrow> \<exists>ev. trace (snd (m st)) = trace st @ ev \<and> list_all P ev"
  by (simp add: adds_def)

lemma adds_ok: "adds P (ok x)"
  by (simp add: adds_def ok_def)

lemma adds_pure: "(\<And>st. trace (g st) = trace st) \<Longrightarrow> adds P (\<lambda>st. ok x (g st))"
  by (simp add: adds_def ok_def)

lemma adds_say: "P a \<Longrightarrow> adds P (say a)"
  by (simp add: adds_def say_def emit_def)

lemma adds_call_unit: "P a \<Longrightarrow> adds P (call_unit w a)"
  by (simp add: adds_def call_unit_def emit_def Let_def)

lemma adds_call_str: "P a \<Longrightarrow> adds P (call_str w a)"
  by (simp add: adds_def call_str_def emit_def Let_def)

lemma adds_call_attr: "P a \<Longrightarrow> adds P (call_attr w a)"
  by (simp add: adds_def call_attr_def emit_def Let_def)

lemma adds_call_elem: "P a \<Longrightarrow> adds P (call_elem w a)"
  by (simp add: adds_def call_elem_def emit_def Let_def)

lemma adds_current_url: "P CurrentUrl \<Longrightarrow> adds P (current_url w)"
  by (simp add: adds_def current_url_def emit_def Let_def)

lemma adds_sleep: "P (Sleep n) \<Longrightarrow> adds P (sleep n)"
  by (simp add: adds_def sleep_def emit_def)

lemma adds_until: "P (Until t c) \<Longrightarrow> adds P (until w t c)"
  by (simp add: adds_def until_def emit_def Let_def split: sum.splits prod.splits)

lemma adds_then_do:
  assumes "adds P m" and "\<And>x. adds P (f x)"
  shows "adds P (then_do m f)"
  unfolding adds_def
proof
  fix st
  obtain ev where ev: "trace (snd (m st)) = trace st @ ev" "list_all P ev"
    using addsD [OF assms(1)] by blast
  show "\<exists>ev. trace (snd (then_do m f st)) = trace st @ ev \<and> list_all P ev"
  proof (cases "m st")
    case (Pair r st1)
    show ?thesis
    proof (cases r)
      case (Inl e)
      with Pair ev show ?thesis by (auto simp: then_do_def)
    next
      case (Inr x)
      obtain ev' where ev': "trace (snd (f x st1)) = trace st1 @ ev'" "list_all P ev'"
        using addsD [OF assms(2)] by blast
      with Pair Inr ev show ?thesis by (auto simp: then_do_def)
    qed
  qed
qed

lemma adds_state: "(\<And>s. adds P (m s)) \<Longrightarrow> adds P (\<lambda>st. m st st)"
  by (simp add: adds_def)

lemma adds_if: "adds P m \<Longrightarrow> adds P n \<Longrightarrow> adds P (if b then m else n)"
  by simp

lemma adds_if_state:
  "adds P m \<Longrightarrow> adds P n \<Longrightarrow> adds P (\<lambda>st. if c st then m st else n st)"
  by (simp add: adds_def)

lemma adds_say_state: "(\<And>st. P (a st)) \<Longrightarrow> adds P (\<lambda>st. say (a st) st)"
  by (simp add: adds_def say_def emit_def)

lemma adds_call_unit_state: "(\<And>st. P (a st)) \<Longrightarrow> adds P (\<lambda>st. call_unit w (a st) st)"
  by (simp add: adds_def call_unit_def emit_def Let_def)

lemma adds_call_str_state: "(\<And>st. P (a st)) \<Longrightarrow> adds P (\<lambda>st. call_str w (a st) st)"
  by (simp add: adds_def call_str_def emit_def Let_def)

lemma adds_call_elem_state: "(\<And>st. P (a st)) \<Longrightarrow> adds P (\<lambda>st. call_elem w (a st) st)"
  by (simp add: adds_def call_elem_def emit_def Let_def)

lemma adds_store_value: "adds P (store_value w s f v)"
  by (simp add: adds_def store_value_def split: sum.splits)

lemma adds_store_attr: "adds P (store_attr w s f)"
  by (simp add: adds_def store_attr_def setattr_tlc_def split: sum.splits)

lemma adds_until_elem: "P (Until t c) \<Longrightarrow> adds P (until_elem w t c)"
  unfolding until_elem_def
  by (rule adds_then_do, erule adds_until) (simp add: adds_def)

lemma adds_until_elem_state:
  "(\<And>st. P (Until (t st) c)) \<Longrightarrow> adds P (\<lambda>st. until_elem w (t st) c st)"
  using adds_until_elem [of P _ c w] by (simp add: adds_def)

lemmas adds_intros =
  adds_then_do adds_ok adds_say adds_call_unit adds_call_str adds_call_attr adds_call_elem
  adds_current_url adds_sleep adds_until adds_until_elem adds_until_elem_state
  adds_if adds_if_state adds_say_state adds_call_unit_state adds_call_str_state
  adds_call_elem_state adds_store_value adds_store_attr

lemma adds_ask_config_item: "adds offline (ask_config_item w s f p d)"
  unfolding ask_config_item_def
  by (intro adds_intros) simp_all

lemma adds_readConfigItem: "adds offline (readConfigItem w s f p d)"
  unfolding readConfigItem_def
  by (intro adds_intros adds_ask_config_item adds_pure) (simp add: ensure_section_def)

lemma adds_open_config: "adds offline (open_config w)"
  by (simp add: adds_def open_config_def Let_def emit_def split: sum.splits)

lemma adds_write_config: "adds offline (write_config w)"
  unfolding write_config_def
  by (intro adds_intros) simp_all

lemma adds_readConfig: "adds offline (readConfig w)"
  unfolding readConfig_def
  by (intro adds_intros adds_readConfigItem adds_pure adds_open_config adds_write_config
        adds_state [where m = "\<lambda>s. readConfigItem w (server s) _ _ _"])
     (simp add: setURLs_def Let_def)

lemma init_offline: "list_all offline (trace (init a))"
  by (simp add: init_def)

section \<open>Evaluating the concrete runs\<close>

lemmas seq_defs =
  then_do_def say_def ok_def emit_def call_unit_def call_str_def call_attr_def
  call_elem_def current_url_def sleep_def until_def until_elem_def ticks_def commands_def
  Let_def

lemma optionxform_names:
  "optionxform ''server'' = ''server''"
  "optionxform ''browser'' = ''browser''"
  "optionxform ''sheetName'' = ''sheetname''"
  "optionxform ''email'' = ''email''"
  "optionxform ''initial_wait_secs'' = ''initial_wait_secs''"
  by code_simp+

lemmas config_defs =
  readConfig_def open_config_def write_config_def readConfigItem_def
  ask_config_item_def store_value_def store_attr_def ensure_section_def has_option_def
  set_option_def getitem_def raw_get_def setattr_tlc_def setURLs_def contains_section_def
  add_empty_section_def DEFAULTSECT_def optionxform_names

lemmas portal_defs =
  portal_world_def portal_pages_def portal_str_def portal_elem_def portal_attr_def
  login_page_def error_page_def dashboard_page_def

lemma readConfig_site:
  "readConfig (portal_world site_config wb pgs ms cs) (init run_args) = (Inr (), configured)"
  by (simp add: config_defs seq_defs portal_world_def site_config_def configured_def init_def
        run_args_def)

section \<open>Roster loading: properties\<close>

lemma append_cells_attendees: "attendees (append_cells cols st) = attendees st @ cols"
  by (induction cols arbitrary: st) simp_all

lemma append_cells_trace: "trace (append_cells cols st) = trace st"
  by (induction cols arbitrary: st) simp_all

lemma append_cells_sheetName: "sheetName (append_cells cols st) = sheetName st"
  by (induction cols arbitrary: st) simp_all

lemma append_cells_args: "args (append_cells cols st) = args st"
  by (induction cols arbitrary: st) simp_all

lemma map_of_sheet:
  "map_of workBook n = Some sh \<Longrightarrow> n \<in> set (sheetnames workBook)"
  by (auto simp: sheetnames_def dest: map_of_SomeD intro: rev_image_eqI)

lemma loadAttendanceData_found:
  assumes "load_workbook w (arg_filename (args st)) = Inr workBook"
      and "map_of workBook (sheetName st) = Some cells"
  shows "fst (loadAttendanceData w st) = Inr (length cells)"
    and "attendees (snd (loadAttendanceData w st)) = cells"
  using assms map_of_sheet [OF assms(2)]
  by (simp_all add: loadAttendanceData_def Let_def emit_def append_cells_attendees)


lemma loadAttendanceData_args: "args (snd (loadAttendanceData w st)) = args st"
  by (simp add: loadAttendanceData_def Let_def emit_def append_cells_args
           split: sum.splits option.splits)

lemma loadAttendanceData_sheetName: "sheetName (snd (loadAttendanceData w st)) = sheetName st"
  by (simp add: loadAttendanceData_def Let_def emit_def append_cells_sheetName
           split: sum.splits option.splits)

lemma loadAttendanceData_depends:
  assumes "args st' = args st" and "sheetName st' = sheetName st"
  shows "fst (loadAttendanceData w st') = fst (loadAttendanceData w st)"
    and "attendees (snd (loadAttendanceData w st')) = attendees (snd (loadAttendanceData w st))"
  using assms
  by (simp_all add: loadAttendanceData_def Let_def emit_def append_cells_attendees
               split: sum.splits option.splits)

lemma non_empty_cells_all: "(length cells = non_empty_cells cells) = (CNone \<notin> set cells)"
  unfolding non_empty_cells_def
proof (induction cells)
  case Nil
  show ?case by simp
next
  case (Cons c cells)
  have le: "length (filter (\<lambda>c. c \<noteq> CNone) cells) \<le> length cells"
    by (rule length_filter_le)
  show ?case
  proof (cases "c = CNone")
    case True
    with le show ?thesis by (simp del: length_filter_le)
  next
    case False
    with Cons show ?thesis by simp
  qed
qed

lemmas roster_run_defs =
  roster_world_def roster_state_def init_def run_args_def header_book_def gap_book_def
  gap_cells_def other_book_def sheetnames_def

text \<open>
  C4, as amended. For every workbook that contains the configured sheet, roster loading
  returns the number of cells of column A and leaves exactly their values as the roster,
  top to bottom, with nothing filtered out: a header-like first cell is kept, and so is the
  \<^verbatim>\<open>None\<close> of an empty cell. The result is the number of non-empty cells exactly when no
  cell of the column is empty.
\<close>

theorem loadAttendanceData_all_cells:
  assumes "load_workbook w (arg_filename (args st)) = Inr workBook"
      and "map_of workBook (sheetName st) = Some cells"
  shows "fst (loadAttendanceData w st) = Inr (length cells)
         \<and> attendees (snd (loadAttendanceData w st)) = cells
         \<and> (length cells = non_empty_cells cells) = (CNone \<notin> set cells)"
  using loadAttendanceData_found [OF assms] non_empty_cells_all by simp

theorem loadAttendanceData_all_cells_witness:
  "load_workbook (roster_world header_book) (arg_filename (args roster_state)) = Inr header_book
   \<and> map_of header_book (sheetName roster_state) = Some [CStr ''Member'', CStr ''A1'', CInt 1042]
   \<and> fst (loadAttendanceData (roster_world header_book) roster_state) = Inr 3
   \<and> attendees (snd (loadAttendanceData (roster_world header_book) roster_state))
       = [CStr ''Member'', CStr ''A1'', CInt 1042]
   \<and> non_empty_cells [CStr ''Member'', CStr ''A1'', CInt 1042] = 3"
proof -
  have h1: "load_workbook (roster_world header_book) (arg_filename (args roster_state))
              = Inr header_book"
    by (simp add: roster_run_defs)
  have h2: "map_of header_book (sheetName roster_state)
              = Some [CStr ''Member'', CStr ''A1'', CInt 1042]"
    by (simp add: roster_run_defs)
  show ?thesis
    using h1 h2 loadAttendanceData_all_cells [OF h1 h2] by simp
qed

text \<open>
  C4 as stated fails where column A has an empty cell inside the used rows: the sheet
  holds two non-empty cells, the roster has three entries and the result is 3.
\<close>

theorem loadAttendanceData_gap_counterexample:
  "map_of gap_book (sheetName roster_state) = Some gap_cells
   \<and> non_empty_cells gap_cells = 2
   \<and> fst (loadAttendanceData (roster_world gap_book) roster_state) = Inr 3
   \<and> fst (loadAttendanceData (roster_world gap_book) roster_state)
       \<noteq> Inr (non_empty_cells gap_cells)
   \<and> attendees (snd (loadAttendanceData (roster_world gap_book) roster_state))
       = [CStr ''A1'', CNone, CStr ''A2'']"
  by (simp add: loadAttendanceData_def Let_def emit_def non_empty_cells_def roster_run_defs)

text \<open>
  C5. For every workbook without a sheet of the configured name, roster loading prints
  the error line, leaves the roster empty and returns 0; it returns, it does not raise.
\<close>

theorem loadAttendanceData_no_sheet:
  assumes "load_workbook w (arg_filename (args st)) = Inr workBook"
      and "sheetName st \<notin> set (sheetnames workBook)"
  shows "loadAttendanceData w st =
           (Inr 0, st\<lparr>attendees := [],
                      trace := trace st @ [LoadWorkbook (arg_filename (args st)),
                         Print (''ERROR: Sheet '' @ sheetName st @ '' not found in ''
                                @ arg_filename (args st))]\<rparr>)"
  using assms by (simp add: loadAttendanceData_def Let_def emit_def)

theorem loadAttendanceData_no_sheet_witness:
  "load_workbook (roster_world other_book) (arg_filename (args roster_state)) = Inr other_book
   \<and> sheetName roster_state \<notin> set (sheetnames other_book)
   \<and> fst (loadAttendanceData (roster_world other_book) roster_state) = Inr 0
   \<and> attendees (snd (loadAttendanceData (roster_world other_book) roster_state)) = []
   \<and> last (trace (snd (loadAttendanceData (roster_world other_book) roster_state)))
       = Print ''ERROR: Sheet Attendance not found in scan.xlsx''"
proof -
  have h1: "load_workbook (roster_world other_book) (arg_filename (args roster_state))
              = Inr other_book"
    by (simp add: roster_run_defs)
  have h2: "sheetName roster_state \<notin> set (sheetnames other_book)"
    by (simp add: roster_run_defs)
  show ?thesis
    using h1 h2 loadAttendanceData_no_sheet [OF h1 h2] by (simp add: roster_run_defs)
qed

text \<open>
  C10. Roster loading resets the roster before it reads: loading twice in succession
  gives the same count and the same roster as loading once, with no entry duplicated.
  (\<open>loadAttendanceData_depends\<close> covers the main sequence, where the login lies between
  the two loads: the result depends on the file name and the sheet name only.)
\<close>

theorem loadAttendanceData_idempotent:
  "fst (loadAttendanceData w (snd (loadAttendanceData w st))) = fst (loadAttendanceData w st)
   \<and> attendees (snd (loadAttendanceData w (snd (loadAttendanceData w st))))
       = attendees (snd (loadAttendanceData w st))"
  using loadAttendanceData_depends [OF loadAttendanceData_args loadAttendanceData_sheetName]
  by blast

theorem loadAttendanceData_idempotent_witness:
  "fst (loadAttendanceData (roster_world header_book)
          (snd (loadAttendanceData (roster_world header_book) roster_state))) = Inr 3
   \<and> attendees (snd (loadAttendanceData (roster_world header_book)
          (snd (loadAttendanceData (roster_world header_book) roster_state))))
       = [CStr ''Member'', CStr ''A1'', CInt 1042]"
  using loadAttendanceData_idempotent [of "roster_world header_book" roster_state]
  by (simp add: loadAttendanceData_def Let_def emit_def roster_run_defs)

section \<open>The main sequence: properties\<close>

lemma adds_loadAttendanceData: "adds offline (loadAttendanceData w)"
  by (simp add: adds_def loadAttendanceData_def Let_def emit_def append_cells_trace
           split: sum.splits option.splits)

text \<open>
  C6. When the first roster load returns 0, the run ends right after the error line:
  the state \<^verbatim>\<open>main\<close> returns is the state the load left plus that one line, and nothing
  in the whole trace touches the browser or asks for the password: no browser session,
  no login, no marking.
\<close>

theorem main_empty_roster:
  assumes "readConfig w (init a) = (Inr (), st1)"
      and "loadAttendanceData w st1 = (Inr 0, st2)"
  shows "main w a = (Inr (), emit (Print ''ERROR: No data found in spreadsheet.'') st2)
         \<and> list_all offline (trace (snd (main w a)))"
proof -
  have m: "main w a = (Inr (), emit (Print ''ERROR: No data found in spreadsheet.'') st2)"
    using assms by (simp add: main_def then_do_def say_def)
  obtain ev1 where ev1: "trace st1 = trace (init a) @ ev1" "list_all offline ev1"
    using addsD [OF adds_readConfig, of w "init a"] assms(1) by auto
  obtain ev2 where ev2: "trace st2 = trace st1 @ ev2" "list_all offline ev2"
    using addsD [OF adds_loadAttendanceData, of w st1] assms(2) by auto
  from ev1 ev2 init_offline [of a] have "list_all offline (trace st2)" by simp
  with m show ?thesis by (simp add: emit_def)
qed

theorem main_empty_roster_witness:
  "readConfig (portal_world site_config other_book (redirect_at 6) [] []) (init run_args)
     = (Inr (), configured)
   \<and> fst (loadAttendanceData (portal_world site_config other_book (redirect_at 6) [] []) configured) = Inr 0
   \<and> main (portal_world site_config other_book (redirect_at 6) [] []) run_args
     = (Inr (), emit (Print ''ERROR: No data found in spreadsheet.'')
          (snd (loadAttendanceData (portal_world site_config other_book (redirect_at 6) [] []) configured)))
   \<and> list_all offline (trace (snd (main (portal_world site_config other_book (redirect_at 6) [] []) run_args)))"
proof -
  have h2: "loadAttendanceData (portal_world site_config other_book (redirect_at 6) [] []) configured
              = (Inr 0, snd (loadAttendanceData (portal_world site_config other_book (redirect_at 6) [] [])
                               configured))"
    by (simp add: loadAttendanceData_def Let_def emit_def portal_world_def configured_def
          init_def run_args_def other_book_def sheetnames_def)
  show ?thesis
    using main_empty_roster [OF readConfig_site h2] readConfig_site [of other_book "redirect_at 6" "[]" "[]"] h2
    by (metis fst_conv)
qed

section \<open>Login: properties\<close>

declare login_loop.simps [simp del]

lemma login_loop_True: "login_loop w tlcPass loginBtn True st = (Inr True, st)"
  by (simp add: login_loop.simps)

lemma login_loop_submit_fails:
  assumes "login_submit w tlcPass loginBtn st = (Inl e, st1)"
  shows "login_loop w tlcPass loginBtn False st = (Inl e, st1)"
  using assms by (simp add: login_loop.simps [of w tlcPass loginBtn False])

text \<open>What the loop does once the credentials are submitted: the wait, then the reads of
  the URL.\<close>

lemma login_loop_after_submit:
  assumes "login_submit w tlcPass loginBtn st = (Inr (), st1)"
  shows "login_loop w tlcPass loginBtn False st =
     (case until w (TSecs 10) (login_conditions st1) st1 of
        (Inl e, st2) \<Rightarrow>
          (if e = TimeoutException then
             (case current_url w st2 of
                (Inl e', st3) \<Rightarrow> (Inl e', st3)
              | (Inr url, st3) \<Rightarrow>
                  (Inr False, emit (Print (''ERROR: Login failed '' @ url)) st3))
           else (Inl e, st2))
      | (Inr _, st2) \<Rightarrow>
          (case current_url w st2 of
             (Inl e, st3) \<Rightarrow> (Inl e, st3)
           | (Inr url, st3) \<Rightarrow>
               if url = DASHBOARD_URL st3 then (Inr True, st3)
               else (case current_url w st3 of
                       (Inl e, st4) \<Rightarrow> (Inl e, st4)
                     | (Inr url', st4) \<Rightarrow>
                         (Inr False,
                          emit (Print (''ERROR: Failed to load dashboard after login ''
                                        @ url')) st4))))"
  using assms
  by (simp add: login_loop.simps [of w tlcPass loginBtn False] login_loop_True
           split: prod.splits sum.splits)

lemma login_submit_trace:
  "\<exists>ev. trace (snd (login_submit w tlcPass loginBtn st)) = trace st @ ev
        \<and> length (filter is_click ev) \<le> 1 \<and> length (filter is_password_lookup ev) \<le> 1"
  by (auto simp: login_submit_def then_do_def call_elem_def call_unit_def emit_def Let_def
           split: sum.splits option.splits prod.splits)

lemma adds_after_submit:
  "adds (\<lambda>a. \<not> is_click a \<and> \<not> is_password_lookup a)
     (\<lambda>st1. case until w (TSecs 10) (login_conditions st1) st1 of
        (Inl e, st2) \<Rightarrow>
          (if e = TimeoutException then
             (case current_url w st2 of
                (Inl e', st3) \<Rightarrow> (Inl e', st3)
              | (Inr url, st3) \<Rightarrow>
                  (Inr False, emit (Print (''ERROR: Login failed '' @ url)) st3))
           else (Inl e, st2))
      | (Inr _, st2) \<Rightarrow>
          (case current_url w st2 of
             (Inl e, st3) \<Rightarrow> (Inl e, st3)
           | (Inr url, st3) \<Rightarrow>
               if url = DASHBOARD_URL st3 then (Inr True, st3)
               else (case current_url w st3 of
                       (Inl e, st4) \<Rightarrow> (Inl e, st4)
                     | (Inr url', st4) \<Rightarrow>
                         (Inr False,
                          emit (Print (''ERROR: Failed to load dashboard after login ''
                                        @ url')) st4))))"
  unfolding adds_def
proof
  fix st1
  obtain r st2 where u: "until w (TSecs 10) (login_conditions st1) st1 = (r, st2)"
    by (cases "until w (TSecs 10) (login_conditions st1) st1")
  then have t2: "trace st2 = trace st1 @ [Until (TSecs 10) (login_conditions st1)]"
    by (auto simp: until_def ticks_def emit_def Let_def split: prod.splits)
  obtain r3 st3 where c3: "current_url w st2 = (r3, st3)" by (cases "current_url w st2")
  then have t3: "trace st3 = trace st2 @ [CurrentUrl]"
    by (auto simp: current_url_def emit_def Let_def)
  obtain r4 st4 where c4: "current_url w st3 = (r4, st4)" by (cases "current_url w st3")
  then have t4: "trace st4 = trace st3 @ [CurrentUrl]"
    by (auto simp: current_url_def emit_def Let_def)
  show "\<exists>ev. trace (snd (case until w (TSecs 10) (login_conditions st1) st1 of
        (Inl e, st2) \<Rightarrow>
          (if e = TimeoutException then
             (case current_url w st2 of
                (Inl e', st3) \<Rightarrow> (Inl e', st3)
              | (Inr url, st3) \<Rightarrow>
                  (Inr False, emit (Print (''ERROR: Login failed '' @ url)) st3))
           else (Inl e, st2))
      | (Inr _, st2) \<Rightarrow>
          (case current_url w st2 of
             (Inl e, st3) \<Rightarrow> (Inl e, st3)
           | (Inr url, st3) \<Rightarrow>
               if url = DASHBOARD_URL st3 then (Inr True, st3)
               else (case current_url w st3 of
                       (Inl e, st4) \<Rightarrow> (Inl e, st4)
                     | (Inr url', st4) \<Rightarrow>
                         (Inr False,
                          emit (Print (''ERROR: Failed to load dashboard after login ''
                                        @ url')) st4))))) = trace st1 @ ev
        \<and> list_all (\<lambda>a. \<not> is_click a \<and> \<not> is_password_lookup a) ev"
    using u t2 c3 t3 c4 t4
    by (auto simp: emit_def split: sum.splits)
qed

lemma login_loop_trace:
  "\<exists>ev. trace (snd (login_loop w tlcPass loginBtn False st)) = trace st @ ev
        \<and> length (filter is_click ev) \<le> 1 \<and> length (filter is_password_lookup ev) \<le> 1"
proof -
  obtain ev where ev: "trace (snd (login_submit w tlcPass loginBtn st)) = trace st @ ev"
      "length (filter is_click ev) \<le> 1" "length (filter is_password_lookup ev) \<le> 1"
    using login_submit_trace by blast
  show ?thesis
  proof (cases "login_submit w tlcPass loginBtn st")
    case (Pair r st1)
    show ?thesis
    proof (cases r)
      case (Inl e)
      with Pair ev show ?thesis by (simp add: login_loop_submit_fails)
    next
      case (Inr u)
      with Pair have s: "login_submit w tlcPass loginBtn st = (Inr (), st1)" by simp
      obtain ev' where ev': "trace (snd (login_loop w tlcPass loginBtn False st)) = trace st1 @ ev'"
          "list_all (\<lambda>a. \<not> is_click a \<and> \<not> is_password_lookup a) ev'"
        using addsD [OF adds_after_submit, of w st1] login_loop_after_submit [OF s] by auto
      from ev'(2) have "filter is_click ev' = []" "filter is_password_lookup ev' = []"
        by (simp_all add: list_all_iff filter_empty_conv)
      with ev ev'(1) Pair show ?thesis by simp
    qed
  qed
qed

lemma adds_getDriver: "(\<And>k. P (NewDriver k)) \<Longrightarrow> adds P (getDriver w)"
  unfolding getDriver_def
  by (rule adds_state, intro adds_intros adds_pure) simp_all

lemma adds_login_prelude:
  "adds (\<lambda>a. \<not> is_click a \<and> \<not> is_password_lookup a) (login_prelude w)"
  unfolding login_prelude_def
  by (intro adds_intros adds_getDriver) simp_all

text \<open>
  C9. The login loop is a terminating recursion (its termination is proved with the
  definition of \<open>login_loop\<close>: a pass is only ever followed by the exit of the loop), so
  \<^verbatim>\<open>login\<close> returns for every world and state. Whatever it returns, it has only appended
  to the trace, the password field was looked up at most once (the loop body ran at most
  once) and at most one click submitted the credentials: a failed attempt is not retried.
\<close>

theorem login_single_attempt:
  "\<exists>ev. trace (snd (login w st)) = trace st @ ev
        \<and> length (filter is_click ev) \<le> 1 \<and> length (filter is_password_lookup ev) \<le> 1"
proof -
  obtain ev where ev: "trace (snd (login_prelude w st)) = trace st @ ev"
      "list_all (\<lambda>a. \<not> is_click a \<and> \<not> is_password_lookup a) ev"
    using addsD [OF adds_login_prelude] by blast
  from ev(2) have none: "filter is_click ev = []" "filter is_password_lookup ev = []"
    by (simp_all add: list_all_iff filter_empty_conv)
  show ?thesis
  proof (cases "login_prelude w st")
    case (Pair r st1)
    show ?thesis
    proof (cases r)
      case (Inl e)
      with Pair ev none show ?thesis by (simp add: login_def then_do_def)
    next
      case (Inr pb)
      obtain tlcPass loginBtn where pb: "pb = (tlcPass, loginBtn)" by (cases pb)
      obtain ev' where ev': "trace (snd (login_loop w tlcPass loginBtn False st1)) = trace st1 @ ev'"
         "length (filter is_click ev') \<le> 1" "length (filter is_password_lookup ev') \<le> 1"
        using login_loop_trace by blast
      with Pair Inr pb ev none show ?thesis by (simp add: login_def then_do_def)
    qed
  qed
qed










subsection \<open>Login on the simulated portal\<close>


lemma poll_first:
  assumes "check c (pages r) = Holds"
      and "\<forall>q. t \<le> q \<and> q < r \<longrightarrow> check c (pages q) = Fails"
      and "t \<le> r" and "r \<le> t + n"
  shows "poll pages c t n = (Inr (), r)"
  using assms
proof (induction n arbitrary: t)
  case 0
  then show ?case by simp
next
  case (Suc n)
  show ?case
  proof (cases "r = t")
    case True
    with Suc.prems(1) show ?thesis by simp
  next
    case False
    with Suc.prems have f: "check c (pages t) = Fails" and "t + 1 \<le> r" and "r \<le> t + 1 + n"
      and "\<forall>q. t + 1 \<le> q \<and> q < r \<longrightarrow> check c (pages q) = Fails"
      by simp_all
    from Suc.IH [OF Suc.prems(1) this(4,2,3)] f show ?thesis by simp
  qed
qed


lemmas state_defs = submitted_def at_form_def loaded_def configured_def init_def run_args_def













section \<open>Attendance marking: properties\<close>

lemma mark_attendee_lookup_fails:
  assumes "w_elem w (trace st @ lookup_events a v) = Inl e"
  shows "mark_attendee w v a st = (Inl e, st\<lparr>trace := trace st @ lookup_events a v\<rparr>)"
  using assms by (simp add: mark_attendee_def lookup_events_def seq_defs)

lemma already_set_pass:
  assumes "w_elem w (trace st @ lookup_events a v) = Inr box"
      and "w_elem w (trace st @ lookup_events a v @ [FindChild box (XPATH, ''..'')]) = Inr parent"
      and "w_attr w (trace st @ lookup_events a v
             @ [FindChild box (XPATH, ''..''), Print ''Before move to element'',
                GetAttribute box ''value'']) = Inr checked"
      and "checked \<noteq> Some ''0''"
  shows "mark_attendee w v a st
           = (Inr (), st\<lparr>trace := trace st @ already_set_events a v box checked\<rparr>)"
  using assms
  by (simp add: mark_attendee_def already_set_events_def lookup_events_def seq_defs)

lemma mark_loop_append:
  "mark_loop w v n (xs @ ys) st =
     (case mark_loop w v n xs st of
        (Inl e, st') \<Rightarrow> (Inl e, st')
      | (Inr m, st') \<Rightarrow> mark_loop w v m ys st')"
  by (induction xs arbitrary: n st) (auto split: prod.splits sum.splits)

lemma mark_loop_count:
  "mark_loop w v n xs st = (Inr m, st') \<Longrightarrow> m = n + length xs"
proof (induction xs arbitrary: n st)
  case Nil
  then show ?case by simp
next
  case (Cons a xs)
  from Cons.prems obtain st1 where "mark_loop w v (n + 1) xs st1 = (Inr m, st')"
    by (auto split: prod.splits sum.splits)
  from Cons.IH [OF this] show ?case by simp
qed

lemma not_summary_prefix [simp]:
  "\<not> is_summary (Print (CHR ''C'' # s))" "\<not> is_summary (Print (CHR ''F'' # s))"
  "\<not> is_summary (Print (CHR ''B'' # s))" "\<not> is_summary (Print (CHR ''A'' # s))"
  "\<not> is_summary (Print (CHR ''S'' # s))" "\<not> is_summary (Print (CHR ''L'' # s))"
  by simp_all

lemma summary_line_is_summary: "is_summary (Print (summary_line c n))"
  by (simp add: summary_line_def)

lemma adds_click_attendee: "adds (\<lambda>x. \<not> is_summary x) (click_attendee w parent)"
  unfolding click_attendee_def scrollFirefox_def
  by (intro adds_intros) simp_all

lemma adds_mark_attendee: "adds (\<lambda>x. \<not> is_summary x) (mark_attendee w v a)"
  unfolding mark_attendee_def
  by (intro adds_intros adds_click_attendee) simp_all

lemma adds_mark_loop: "adds (\<lambda>x. \<not> is_summary x) (mark_loop w v n xs)"
proof (induction xs arbitrary: n)
  case Nil
  show ?case by (simp add: adds_def)
next
  case (Cons a xs)
  have "mark_loop w v n (a # xs) = then_do (mark_attendee w v a) (\<lambda>_. mark_loop w v (n + 1) xs)"
    by (rule ext) (simp add: then_do_def split: prod.splits sum.splits)
  then show ?case using Cons adds_mark_attendee by (simp add: adds_then_do)
qed

lemma adds_record_prelude: "adds (\<lambda>x. \<not> is_summary x) (record_prelude w)"
  unfolding record_prelude_def
  by (intro adds_intros) simp_all


text \<open>
  C2. Let the loop have passed over the entries before position i (\<open>pre\<close>) and let the
  lookup of the checkbox of the entry at position i (\<open>a\<close>) fail with element-not-found.
  Then the loop, and \<^verbatim>\<open>recordAttendance\<close> with it, ends with that exception in the state
  of that moment: the trace ends with the failed lookup, whatever entries (\<open>post\<close>) follow
  in the roster, so none of them is looked up, clicked or otherwise processed; and no
  summary line is among the actions \<^verbatim>\<open>recordAttendance\<close> has appended.
\<close>

theorem recordAttendance_missing_checkbox:
  assumes "record_prelude w st = (Inr v, st1)"
      and "attendees st1 = pre @ a # post"
      and "mark_loop w v 0 pre st1 = (Inr c, st2)"
      and "w_elem w (trace st2 @ lookup_events a v) = Inl NoSuchElementException"
  shows "mark_loop w v 0 (pre @ a # post) st1
           = (Inl NoSuchElementException, st2\<lparr>trace := trace st2 @ lookup_events a v\<rparr>)
       \<and> recordAttendance w st
           = (Inl NoSuchElementException, st2\<lparr>trace := trace st2 @ lookup_events a v\<rparr>)
       \<and> list_all (\<lambda>x. \<not> is_summary x)
            (drop (length (trace st)) (trace st2 @ lookup_events a v))"
proof -
  have loop: "mark_loop w v 0 (pre @ a # post) st1
           = (Inl NoSuchElementException, st2\<lparr>trace := trace st2 @ lookup_events a v\<rparr>)"
    using assms(3) mark_attendee_lookup_fails [OF assms(4)]
    by (simp add: mark_loop_append)
  have rec: "recordAttendance w st
           = (Inl NoSuchElementException, st2\<lparr>trace := trace st2 @ lookup_events a v\<rparr>)"
    using assms(1,2) loop by (simp add: recordAttendance_def then_do_def)
  obtain ev1 where ev1: "trace st1 = trace st @ ev1" "list_all (\<lambda>x. \<not> is_summary x) ev1"
    using addsD [OF adds_record_prelude, of w st] assms(1) by auto
  obtain ev2 where ev2: "trace st2 = trace st1 @ ev2" "list_all (\<lambda>x. \<not> is_summary x) ev2"
    using addsD [OF adds_mark_loop, of w v 0 pre st1] assms(3) by auto
  have "list_all (\<lambda>x. \<not> is_summary x) (lookup_events a v)"
    by (simp add: lookup_events_def)
  with ev1 ev2 have "list_all (\<lambda>x. \<not> is_summary x)
            (drop (length (trace st)) (trace st2 @ lookup_events a v))"
    by simp
  with loop rec show ?thesis by simp
qed

text \<open>
  C7. When the checkbox of an attendee is found and its value attribute is not \<^verbatim>\<open>'0'\<close>,
  the loop body appends exactly the actions of \<open>already_set_events\<close>: lookups, the read of
  the value and prints, with no click, no action chain and no scroll among them; and the
  loop goes on with the next roster entry.
\<close>

theorem mark_attendee_already_set:
  assumes "w_elem w (trace st @ lookup_events a v) = Inr box"
      and "w_elem w (trace st @ lookup_events a v @ [FindChild box (XPATH, ''..'')]) = Inr parent"
      and "w_attr w (trace st @ lookup_events a v
             @ [FindChild box (XPATH, ''..''), Print ''Before move to element'',
                GetAttribute box ''value'']) = Inr checked"
      and "checked \<noteq> Some ''0''"
  shows "mark_attendee w v a st
           = (Inr (), st\<lparr>trace := trace st @ already_set_events a v box checked\<rparr>)
       \<and> list_all (\<lambda>x. \<not> is_gesture x) (already_set_events a v box checked)
       \<and> mark_loop w v n (a # rest) st
           = mark_loop w v (n + 1) rest
               (st\<lparr>trace := trace st @ already_set_events a v box checked\<rparr>)"
  using already_set_pass [OF assms]
  by (simp add: already_set_events_def lookup_events_def)

lemma xpath_lookups_append: "xpath_lookups (xs @ ys) = xpath_lookups xs @ xpath_lookups ys"
  by (induction xs rule: xpath_lookups.induct) simp_all

lemma xpath_lookups_none:
  "list_all (\<lambda>x. \<forall>q. x \<noteq> FindElement (XPATH, q)) ev \<Longrightarrow> xpath_lookups ev = []"
  by (induction ev rule: xpath_lookups.induct) simp_all


lemma mark_attendee_lookups:
  "\<exists>ev. trace (snd (mark_attendee w v a st)) = trace st @ ev
        \<and> xpath_lookups ev = [attendeeXPath a v]"
  by (auto simp: mark_attendee_def click_attendee_def scrollFirefox_def seq_defs
           split: sum.splits option.splits)

lemma mark_loop_completed_lookups:
  "mark_loop w v n xs st = (Inr m, st') \<Longrightarrow>
   \<exists>ev. trace st' = trace st @ ev \<and> xpath_lookups ev = map (\<lambda>a. attendeeXPath a v) xs"
proof (induction xs arbitrary: n st)
  case Nil
  then show ?case by simp
next
  case (Cons a xs)
  from Cons.prems obtain st1 where a: "mark_attendee w v a st = (Inr (), st1)"
      and r: "mark_loop w v (n + 1) xs st1 = (Inr m, st')"
    by (auto split: prod.splits sum.splits)
  obtain ev where ev: "trace st1 = trace st @ ev" "xpath_lookups ev = [attendeeXPath a v]"
    using mark_attendee_lookups [of w v a st] a by auto
  obtain ev' where ev': "trace st' = trace st1 @ ev'"
      "xpath_lookups ev' = map (\<lambda>a. attendeeXPath a v) xs"
    using Cons.IH [OF r] by blast
  from ev ev' have "trace st' = trace st @ (ev @ ev')
      \<and> xpath_lookups (ev @ ev') = map (\<lambda>a. attendeeXPath a v) (a # xs)"
    by (simp add: xpath_lookups_append)
  then show ?case by blast
qed

lemma mark_attendee_starts:
  "\<exists>ev. trace (snd (mark_attendee w v a st)) = trace st @ lookup_events a v @ ev"
  by (auto simp: mark_attendee_def click_attendee_def scrollFirefox_def lookup_events_def
        seq_defs split: sum.splits option.splits)

lemma mark_loop_starts:
  "\<exists>ev. trace (snd (mark_loop w v n (a # post) st)) = trace st @ lookup_events a v @ ev"
proof -
  obtain ev where ev: "trace (snd (mark_attendee w v a st)) = trace st @ lookup_events a v @ ev"
    using mark_attendee_starts by blast
  show ?thesis
  proof (cases "mark_attendee w v a st")
    case (Pair r st1)
    show ?thesis
    proof (cases r)
      case (Inl e)
      with Pair ev show ?thesis by simp
    next
      case (Inr u)
      obtain ev' where "trace (snd (mark_loop w v (n + 1) post st1)) = trace st1 @ ev'"
        using addsD [OF adds_mark_loop, of w v "n + 1" post st1] by blast
      with Pair Inr ev have "trace (snd (mark_loop w v n (a # post) st))
          = trace st @ lookup_events a v @ (ev @ ev')"
        by simp
      then show ?thesis by blast
    qed
  qed
qed

lemma attendeeXPath_claimed:
  "attendeeXPath a v = claimed_xpath (py_str a) (py_str_opt v)"
  by (simp add: attendeeXPath_def attendeeCboxId_def claimed_xpath_def claimed_checkbox_id_def)

text \<open>
  C8. Let the loop have passed over the roster entries \<open>pre\<close>. Then the XPath queries it
  has issued are, in roster order, exactly the queries \<^verbatim>\<open>//input[@id = '...']\<close> for the
  identifiers made of the attendee identifier, a hyphen, the event value, a hyphen and
  \<^verbatim>\<open>attended\<close>, one per entry; and for whatever attendee \<open>a\<close> comes next, the loop goes on
  by printing two lines and looking up the element with that very query for \<open>a\<close>, before
  anything else. (With \<open>pre\<close> the whole roster, the first part is about the completed
  loop; a cell value that is not a string, and an event value that is missing, enter the
  identifier as Python prints them.)
\<close>

theorem mark_loop_checkbox_ids:
  assumes "mark_loop w v n pre st = (Inr m, st1)"
  shows "xpath_lookups (drop (length (trace st)) (trace st1))
           = map (\<lambda>a. claimed_xpath (py_str a) (py_str_opt v)) pre
       \<and> (\<exists>ev. trace (snd (mark_loop w v n (pre @ a # post) st))
                 = trace st1
                   @ Print (''Check attendee: '' @ py_str a)
                   # Print (''Find attendee by xpath: ''
                            @ claimed_xpath (py_str a) (py_str_opt v))
                   # FindElement (XPATH, claimed_xpath (py_str a) (py_str_opt v))
                   # ev)"
proof -
  obtain ev where ev: "trace st1 = trace st @ ev"
      "xpath_lookups ev = map (\<lambda>a. attendeeXPath a v) pre"
    using mark_loop_completed_lookups [OF assms] by blast
  then have one: "xpath_lookups (drop (length (trace st)) (trace st1))
           = map (\<lambda>a. claimed_xpath (py_str a) (py_str_opt v)) pre"
    by (simp add: attendeeXPath_claimed)
  obtain ev' where "trace (snd (mark_loop w v m (a # post) st1))
      = trace st1 @ lookup_events a v @ ev'"
    using mark_loop_starts by blast
  with assms have "trace (snd (mark_loop w v n (pre @ a # post) st))
                 = trace st1
                   @ Print (''Check attendee: '' @ py_str a)
                   # Print (''Find attendee by xpath: ''
                            @ claimed_xpath (py_str a) (py_str_opt v))
                   # FindElement (XPATH, claimed_xpath (py_str a) (py_str_opt v))
                   # ev'"
    by (simp add: mark_loop_append lookup_events_def attendeeXPath_claimed)
  with one show ?thesis by blast
qed

section \<open>Attendance marking on the simulated portal\<close>

lemmas marking_defs = marked_A1_def marking_def roster3_def state_defs
lemmas mark_defs = record_prelude_def mark_attendee_def click_attendee_def scrollFirefox_def
  attendeeXPath_def attendeeCboxId_def ID_LESSON_PLAN_CBOX_def
lemmas box_defs = box_A1_def box_A2_def box_A3_def

lemma record_prelude_portal:
  "record_prelude (portal_world cfg wb pgs ms cs) roster3 = (Inr (Some ''7''), marking)"
  by (simp add: mark_defs seq_defs portal_defs marking_defs)

lemma lookup_A1:
  "w_elem (portal_world cfg wb pgs [box_A2] cs)
     (trace marking @ lookup_events (CStr ''A1'') (Some ''7'')) = Inr 37"
  by (simp add: portal_defs lookup_events_def mark_defs box_defs marking_defs)

lemma parent_A1:
  "w_elem (portal_world cfg wb pgs ms cs)
     (trace marking @ lookup_events (CStr ''A1'') (Some ''7'') @ [FindChild 37 (XPATH, ''..'')])
     = Inr 38"
  by (simp add: portal_defs lookup_events_def mark_defs marking_defs)

lemma value_A1:
  "w_attr (portal_world cfg wb pgs ms [box_A1])
     (trace marking @ lookup_events (CStr ''A1'') (Some ''7'')
        @ [FindChild 37 (XPATH, ''..''), Print ''Before move to element'',
           GetAttribute 37 ''value'']) = Inr (Some ''1'')"
  by (simp add: portal_defs lookup_events_def mark_defs box_defs marking_defs)

lemma lookup_A2:
  "w_elem (portal_world cfg wb pgs [box_A2] cs)
     (trace marked_A1 @ lookup_events (CStr ''A2'') (Some ''7'')) = Inl NoSuchElementException"
  by (simp add: portal_defs lookup_events_def mark_defs box_defs marking_defs)

lemma pass_A1:
  "mark_loop (portal_world cfg wb pgs [box_A2] [box_A1]) (Some ''7'') 0 [CStr ''A1''] marking
     = (Inr 1, marked_A1)"
proof -
  have neq: "Some ''1'' \<noteq> Some ''0''" by simp
  show ?thesis
    using already_set_pass [OF lookup_A1 [of cfg wb pgs "[box_A1]"]
            parent_A1 [of cfg wb pgs "[box_A2]" "[box_A1]"] value_A1 [of cfg wb pgs "[box_A2]"]
            neq]
    by (simp add: marked_A1_def)
qed

lemma show_int_1042:
  "show_int 1042 = ''1042''"
  by code_simp

lemma show_int_minus_5:
  "show_int (- 5) = ''-5''"
  by code_simp

lemma contains_firefox:
  "contains ''firefox'' ''firefox''"
  by code_simp

lemma pass_1042:
  "mark_attendee (portal_world cfg wb pgs [box_A2] [box_A1]) (Some ''7'') (CInt 1042) marked_A1
     = (Inr (), marked_1042)"
  by (simp add: mark_defs seq_defs portal_defs marking_defs box_defs box_1042_def
        marked_1042_def already_set_events_def lookup_events_def show_int_1042
        contains_firefox)

lemma pass_A1_1042:
  "mark_loop (portal_world cfg wb pgs [box_A2] [box_A1]) (Some ''7'') 0
     [CStr ''A1'', CInt 1042] marking = (Inr 2, marked_1042)"
proof -
  have "mark_loop (portal_world cfg wb pgs [box_A2] [box_A1]) (Some ''7'') 0
          ([CStr ''A1''] @ [CInt 1042]) marking
        = mark_loop (portal_world cfg wb pgs [box_A2] [box_A1]) (Some ''7'') 1
            [CInt 1042] marked_A1"
    unfolding mark_loop_append pass_A1 by simp
  also have "\<dots> = (Inr 2, marked_1042)"
    by (simp add: pass_1042)
  finally show ?thesis by (simp only: append.simps)
qed


theorem mark_attendee_already_set_witness:
  "w_elem (portal_world site_config two_book (redirect_at 6) [box_A2] [box_A1])
     (trace marking @ lookup_events (CStr ''A1'') (Some ''7'')) = Inr 37
   \<and> w_attr (portal_world site_config two_book (redirect_at 6) [box_A2] [box_A1])
      (trace marking @ lookup_events (CStr ''A1'') (Some ''7'')
        @ [FindChild 37 (XPATH, ''..''), Print ''Before move to element'',
           GetAttribute 37 ''value'']) = Inr (Some ''1'')
   \<and> mark_attendee (portal_world site_config two_book (redirect_at 6) [box_A2] [box_A1])
        (Some ''7'') (CStr ''A1'') marking = (Inr (), marked_A1)
   \<and> list_all (\<lambda>x. \<not> is_gesture x) (drop (length (trace marking)) (trace marked_A1))
   \<and> mark_loop (portal_world site_config two_book (redirect_at 6) [box_A2] [box_A1])
        (Some ''7'') 0 [CStr ''A1'', CStr ''A2'', CStr ''A3''] marking
      = mark_loop (portal_world site_config two_book (redirect_at 6) [box_A2] [box_A1])
          (Some ''7'') 1 [CStr ''A2'', CStr ''A3''] marked_A1"
proof -
  have neq: "Some ''1'' \<noteq> Some ''0''" by simp
  show ?thesis
    using mark_attendee_already_set [OF lookup_A1 [of site_config two_book "redirect_at 6" "[box_A1]"]
            parent_A1 [of site_config two_book "redirect_at 6" "[box_A2]" "[box_A1]"]
            value_A1 [of site_config two_book "redirect_at 6" "[box_A2]"] neq,
            of 0 "[CStr ''A2'', CStr ''A3'']"]
          lookup_A1 [of site_config two_book "redirect_at 6" "[box_A1]"]
          value_A1 [of site_config two_book "redirect_at 6" "[box_A2]"]
    by (simp add: marked_A1_def)
qed

theorem recordAttendance_missing_checkbox_witness:
  "record_prelude (portal_world site_config two_book (redirect_at 6) [box_A2] [box_A1]) roster3
     = (Inr (Some ''7''), marking)
   \<and> attendees marking = [CStr ''A1''] @ CStr ''A2'' # [CStr ''A3'']
   \<and> mark_loop (portal_world site_config two_book (redirect_at 6) [box_A2] [box_A1])
        (Some ''7'') 0 [CStr ''A1''] marking = (Inr 1, marked_A1)
   \<and> w_elem (portal_world site_config two_book (redirect_at 6) [box_A2] [box_A1])
        (trace marked_A1 @ lookup_events (CStr ''A2'') (Some ''7'')) = Inl NoSuchElementException
   \<and> recordAttendance (portal_world site_config two_book (redirect_at 6) [box_A2] [box_A1]) roster3
      = (Inl NoSuchElementException,
         marked_A1\<lparr>trace := trace marked_A1 @ lookup_events (CStr ''A2'') (Some ''7'')\<rparr>)
   \<and> list_all (\<lambda>x. \<not> is_summary x)
        (drop (length (trace roster3))
           (trace marked_A1 @ lookup_events (CStr ''A2'') (Some ''7'')))"
proof -
  have r: "attendees marking = [CStr ''A1''] @ CStr ''A2'' # [CStr ''A3'']"
    by (simp add: marking_defs)
  show ?thesis
    using recordAttendance_missing_checkbox [OF
            record_prelude_portal [of site_config two_book "redirect_at 6" "[box_A2]" "[box_A1]"]
            r pass_A1 [of site_config two_book "redirect_at 6"]
            lookup_A2 [of site_config two_book "redirect_at 6" "[box_A1]"]]
          record_prelude_portal [of site_config two_book "redirect_at 6" "[box_A2]" "[box_A1]"]
          r pass_A1 [of site_config two_book "redirect_at 6"]
          lookup_A2 [of site_config two_book "redirect_at 6" "[box_A1]"]
    by blast
qed

theorem mark_loop_checkbox_ids_witness:
  "mark_loop (portal_world site_config two_book (redirect_at 6) [box_A2] [box_A1]) (Some ''7'') 0
     [CStr ''A1'', CInt 1042] marking = (Inr 2, marked_1042)
   \<and> xpath_lookups (drop (length (trace marking)) (trace marked_1042)) = [box_A1, box_1042]
   \<and> (\<exists>ev. trace (snd (mark_loop
                 (portal_world site_config two_book (redirect_at 6) [box_A2] [box_A1]) (Some ''7'') 0
                 ([CStr ''A1'', CInt 1042] @ CNone # [CStr ''A3'']) marking))
         = trace marked_1042
           @ Print ''Check attendee: None''
           # Print (''Find attendee by xpath: '' @ box_None)
           # FindElement (XPATH, box_None)
           # ev)
   \<and> (\<exists>ev. trace (snd (mark_loop
                 (portal_world site_config two_book (redirect_at 6) [box_A2] [box_A1]) None 0
                 ([] @ CInt (- 5) # []) marking))
         = trace marking
           @ Print ''Check attendee: -5''
           # Print (''Find attendee by xpath: //input[@id = '' @ [CHR 0x27]
                    @ ''-5-None-attended'' @ [CHR 0x27] @ '']'')
           # FindElement (XPATH, ''//input[@id = '' @ [CHR 0x27]
                    @ ''-5-None-attended'' @ [CHR 0x27] @ '']'')
           # ev)"
proof -
  have e: "mark_loop (portal_world site_config two_book (redirect_at 6) [box_A2] [box_A1]) None 0
             [] marking = (Inr 0, marking)"
    by simp
  show ?thesis
    using mark_loop_checkbox_ids [OF pass_A1_1042 [of site_config two_book "redirect_at 6"],
            of CNone "[CStr ''A3'']"]
          mark_loop_checkbox_ids [OF e, of "CInt (- 5)" "[]"]
          pass_A1_1042 [of site_config two_book "redirect_at 6"]
    by (simp add: claimed_xpath_def claimed_checkbox_id_def box_defs box_1042_def box_None_def
          show_int_1042 show_int_minus_5)
qed

section \<open>Configuration resolution: properties\<close>

lemma inputs_append: "inputs (xs @ ys) = inputs xs @ inputs ys"
  by (induction xs rule: inputs.induct) simp_all

lemma config_writes_append: "config_writes (xs @ ys) = config_writes xs @ config_writes ys"
  by (induction xs rule: config_writes.induct) simp_all

lemma keys_update:
  "k \<in> fst ` set (AList.update k' v al) \<longleftrightarrow> k = k' \<or> k \<in> fst ` set al"
  by (simp add: dom_update)

lemma map_of_new_section:
  "s \<notin> set (map fst al) \<Longrightarrow>
   map_of (al @ [(s, [])]) s2 = (if s2 = s then Some [] else map_of al s2)"
  by (induction al) auto

lemma sections_ensure:
  "map_of (sections (config (ensure_section s st))) s2 =
     (if s \<noteq> DEFAULTSECT \<and> s \<notin> set (map fst (sections (config st))) \<and> s2 = s
      then Some [] else map_of (sections (config st)) s2)"
  by (simp add: ensure_section_def contains_section_def add_empty_section_def map_of_new_section
           del: map_of_append)

lemma defaults_ensure: "defaults (config (ensure_section s st)) = defaults (config st)"
  by (simp add: ensure_section_def add_empty_section_def)

lemma absent_None: "s \<notin> set (map fst al) \<Longrightarrow> map_of al s = None"
  by (simp add: map_of_eq_None_iff)

lemma present_Some: "s \<in> set (map fst al) \<Longrightarrow> \<exists>x. map_of al s = Some x"
  by (metis absent_None map_of_eq_None_iff not_Some_eq set_map)

lemma visible_ensure:
  "visible (config (ensure_section s st)) s2 f2 = visible (config st) s2 f2"
  by (simp add: visible_def own_option_def sections_ensure defaults_ensure absent_None)


lemma has_option_ensure:
  "has_option (config (ensure_section s st)) s f = visible (config st) s f"
proof (cases "s = [] \<or> s = DEFAULTSECT")
  case True
  then show ?thesis
    by (cases "s = DEFAULTSECT")
       (auto simp: has_option_def visible_def own_option_def defaults_ensure)
next
  case False
  then have s: "s \<noteq> []" "s \<noteq> DEFAULTSECT" by simp_all
  show ?thesis
  proof (cases "map_of (sections (config st)) s")
    case None
    then have "s \<notin> set (map fst (sections (config st)))"
      by (simp add: map_of_eq_None_iff)
    with None s show ?thesis
      by (simp add: has_option_def visible_def own_option_def defaults_ensure sections_ensure)
  next
    case (Some x)
    then have "s \<in> set (map fst (sections (config st)))"
      using absent_None by fastforce
    with Some s show ?thesis
      by (auto simp: has_option_def visible_def own_option_def defaults_ensure sections_ensure)
  qed
qed

lemma file_value_ensure:
  assumes "file_value (config st) s0 k0 = Some v"
  shows "file_value (config (ensure_section s st)) s0 k0 = Some v"
proof (cases "s0 = DEFAULTSECT")
  case True
  with assms show ?thesis by (simp add: file_value_def defaults_ensure)
next
  case False
  with assms obtain sect where sect: "map_of (sections (config st)) s0 = Some sect"
    by (simp add: file_value_def split: option.splits)
  then have "s0 \<in> set (map fst (sections (config st)))"
    using absent_None by fastforce
  with assms False sect show ?thesis
    by (auto simp: file_value_def sections_ensure)
qed

lemma ensure_section_frame:
  "trace (ensure_section s st) = trace st" "args (ensure_section s st) = args st"
  "configChanged (ensure_section s st) = configChanged st" "server (ensure_section s st) = server st"
  by (simp_all add: ensure_section_def)


lemma set_option_visible:
  assumes "set_option w c s f v = Inr c'" and "optionxform f2 \<noteq> optionxform f"
  shows "visible c' s2 f2 = visible c s2 f2"
proof (cases "s = [] \<or> s = DEFAULTSECT")
  case True
  with assms have c': "c' = c\<lparr>defaults := AList.update (optionxform f) v (defaults c)\<rparr>"
    by (auto simp: set_option_def split: option.splits)
  show ?thesis using assms(2)
    by (simp add: c' visible_def own_option_def keys_update)
next
  case False
  with assms obtain sect where sect: "map_of (sections c) s = Some sect"
    and c': "c' = c\<lparr>sections :=
               AList.update s (AList.update (optionxform f) v sect) (sections c)\<rparr>"
    by (auto simp: set_option_def split: option.splits)
  show ?thesis using assms(2) sect
    by (cases "s2 = s") (simp_all add: c' visible_def own_option_def keys_update update_conv')
qed

lemma set_option_file_value:
  assumes "set_option w c s f v = Inr c'" and "\<not> has_option c s f"
      and "file_value c s0 k0 = Some v0"
  shows "file_value c' s0 k0 = Some v0"
proof (cases "s = [] \<or> s = DEFAULTSECT")
  case True
  with assms have c': "c' = c\<lparr>defaults := AList.update (optionxform f) v (defaults c)\<rparr>"
    by (auto simp: set_option_def split: option.splits)
  from True assms(2) have "map_of (defaults c) (optionxform f) = None"
    by (simp add: has_option_def map_of_eq_None_iff)
  with assms(3) show ?thesis
    by (auto simp: c' file_value_def update_conv' split: option.splits if_splits)
next
  case False
  with assms obtain sect where sect: "map_of (sections c) s = Some sect"
    and c': "c' = c\<lparr>sections :=
               AList.update s (AList.update (optionxform f) v sect) (sections c)\<rparr>"
    by (auto simp: set_option_def split: option.splits)
  from False assms(2) sect have "map_of sect (optionxform f) = None"
    by (simp add: has_option_def map_of_eq_None_iff)
  with assms(3) sect show ?thesis
    by (auto simp: c' file_value_def update_conv' split: option.splits if_splits)
qed


lemma ask_config_item_effect:
  assumes "ask_config_item w s f p d st = (Inr (), st')"
  shows "\<exists>ev. trace st' = trace st @ ev \<and> inputs ev = [p] \<and> config_writes ev = []"
    and "\<exists>v. set_option w (config st) s f v = Inr (config st')"
    and "configChanged st'" and "args st' = args st" and "server st' = server st"
  using assms
  by (auto simp: ask_config_item_def store_value_def seq_defs split: sum.splits if_splits)

lemma store_attr_effect:
  assumes "store_attr w s f st = (Inr (), st')"
  shows "trace st' = trace st" and "config st' = config st"
    and "configChanged st' = configChanged st" and "args st' = args st"
    and "f \<noteq> ''server'' \<Longrightarrow> server st' = server st"
  using assms
  by (auto simp: store_attr_def setattr_tlc_def split: sum.splits if_splits)

lemma readConfigItem_effect:
  assumes "readConfigItem w s f p d st = (Inr (), st')"
  shows "\<exists>ev. trace st' = trace st @ ev
              \<and> inputs ev = (if visible (config st) s f then [] else [p])
              \<and> config_writes ev = []"
    and "configChanged st' = (configChanged st \<or> \<not> visible (config st) s f)"
    and "args st' = args st"
    and "optionxform f2 \<noteq> optionxform f \<Longrightarrow> visible (config st') s2 f2 = visible (config st) s2 f2"
    and "file_value (config st) s0 k0 = Some v0 \<Longrightarrow> file_value (config st') s0 k0 = Some v0"
    and "f \<noteq> ''server'' \<Longrightarrow> server st' = server st"
proof -
  let ?st1 = "ensure_section s st"
  from assms obtain st2 where
      mid: "(if \<not> has_option (config ?st1) s f then ask_config_item w s f p d ?st1
            else ok () ?st1) = (Inr (), st2)"
      and fin: "store_attr w s f st2 = (Inr (), st')"
    by (auto simp: readConfigItem_def ok_def elim!: then_do_InrE)
  note sa = store_attr_effect [OF fin]
  note ho = has_option_ensure [of s st f]
  note fr = ensure_section_frame [of s st]
  show "\<exists>ev. trace st' = trace st @ ev
              \<and> inputs ev = (if visible (config st) s f then [] else [p])
              \<and> config_writes ev = []"
  proof (cases "visible (config st) s f")
    case True
    with mid ho have "st2 = ?st1" by (simp add: ok_def)
    with True sa fr show ?thesis by simp
  next
    case False
    with mid ho have "ask_config_item w s f p d ?st1 = (Inr (), st2)" by simp
    from ask_config_item_effect(1) [OF this] False sa fr show ?thesis by simp
  qed
  show "configChanged st' = (configChanged st \<or> \<not> visible (config st) s f)"
  proof (cases "visible (config st) s f")
    case True
    with mid ho have "st2 = ?st1" by (simp add: ok_def)
    with True sa fr show ?thesis by simp
  next
    case False
    with mid ho have "ask_config_item w s f p d ?st1 = (Inr (), st2)" by simp
    from ask_config_item_effect(3) [OF this] False sa show ?thesis by simp
  qed
  show "args st' = args st"
  proof (cases "visible (config st) s f")
    case True
    with mid ho have "st2 = ?st1" by (simp add: ok_def)
    with sa fr show ?thesis by simp
  next
    case False
    with mid ho have "ask_config_item w s f p d ?st1 = (Inr (), st2)" by simp
    from ask_config_item_effect(4) [OF this] sa fr show ?thesis by simp
  qed
  show "server st' = server st" if "f \<noteq> ''server''"
  proof (cases "visible (config st) s f")
    case True
    with mid ho have "st2 = ?st1" by (simp add: ok_def)
    with sa that fr show ?thesis by simp
  next
    case False
    with mid ho have "ask_config_item w s f p d ?st1 = (Inr (), st2)" by simp
    from ask_config_item_effect(5) [OF this] sa that fr show ?thesis by simp
  qed
  show "visible (config st') s2 f2 = visible (config st) s2 f2"
    if "optionxform f2 \<noteq> optionxform f"
  proof (cases "visible (config st) s f")
    case True
    with mid ho have "st2 = ?st1" by (simp add: ok_def)
    with sa show ?thesis by (simp add: visible_ensure)
  next
    case False
    with mid ho have "ask_config_item w s f p d ?st1 = (Inr (), st2)" by simp
    from ask_config_item_effect(2) [OF this] obtain v
      where "set_option w (config ?st1) s f v = Inr (config st2)" by blast
    from set_option_visible [OF this that] sa show ?thesis by (simp add: visible_ensure)
  qed
  show "file_value (config st') s0 k0 = Some v0" if "file_value (config st) s0 k0 = Some v0"
  proof (cases "visible (config st) s f")
    case True
    with mid ho have "st2 = ?st1" by (simp add: ok_def)
    with sa file_value_ensure [OF that] show ?thesis by simp
  next
    case False
    with mid ho have "ask_config_item w s f p d ?st1 = (Inr (), st2)" by simp
    from ask_config_item_effect(2) [OF this] obtain v
      where "set_option w (config ?st1) s f v = Inr (config st2)" by blast
    from set_option_file_value [OF this _ file_value_ensure [OF that]] False ho sa
    show ?thesis by simp
  qed
qed


lemma open_config_effect:
  assumes "open_config w st = (Inr (), st')"
      and "config_file w (arg_config (args st)) = Inr c0"
  shows "trace st' = trace st @ [ReadConfigFile (arg_config (args st))]"
    and "config st' = c0" and "\<not> configChanged st'" and "args st' = args st"
  using assms by (auto simp: open_config_def Let_def emit_def)

lemma setURLs_frame:
  "trace (setURLs st) = trace st" "config (setURLs st) = config st"
  "configChanged (setURLs st) = configChanged st" "args (setURLs st) = args st"
  "server (setURLs st) = server st"
  by (simp_all add: setURLs_def Let_def)

lemma write_config_effect:
  assumes "write_config w st = (Inr (), st')"
  shows "\<exists>ev. trace st' = trace st @ ev \<and> inputs ev = []
              \<and> config_writes ev
                  = (if configChanged st then [(arg_config (args st), config st)] else [])"
    and "config st' = config st" and "server st' = server st"
  using assms
  by (auto simp: write_config_def seq_defs split: if_splits option.splits)

lemma then_do_unitE:
  assumes "then_do m (\<lambda>_. g) st = (Inr y, st')"
  obtains st1 where "m st = (Inr (), st1)" and "g st1 = (Inr y, st')"
  using assms by (auto simp: then_do_def split: prod.splits sum.splits)

lemma readConfig_steps:
  assumes "readConfig w st = (Inr (), st')"
  obtains sA s1 s2 s3 s4 s5 where
    "open_config w st = (Inr (), sA)"
    "readConfigItem w DEFAULTSECT ''server'' ''Trail Life Connect website: ''
       ''www.traillifeconnect.com'' sA = (Inr (), s1)"
    "readConfigItem w DEFAULTSECT ''browser''
       ''Web browser to use (Firefox, Chrome, Edge): '' ''Firefox'' (setURLs s1) = (Inr (), s2)"
    "readConfigItem w DEFAULTSECT ''sheetName'' ''Attendance sheet name: ''
       ''Attendance'' s2 = (Inr (), s3)"
    "readConfigItem w (server s3) ''email'' ''Trail Life Connect username: ''
       ''user@example.com'' s3 = (Inr (), s4)"
    "readConfigItem w (server s4) ''initial_wait_secs''
       ''Time to wait for website in seconds: '' ''30'' s4 = (Inr (), s5)"
    "write_config w s5 = (Inr (), st')"
proof -
  from assms [unfolded readConfig_def] obtain sA where
      a: "open_config w st = (Inr (), sA)" and ra: "then_do
         (readConfigItem w DEFAULTSECT ''server'' ''Trail Life Connect website: ''
            ''www.traillifeconnect.com'') (\<lambda>_.
     then_do (\<lambda>st. ok () (setURLs st)) (\<lambda>_.
     then_do (readConfigItem w DEFAULTSECT ''browser''
                ''Web browser to use (Firefox, Chrome, Edge): '' ''Firefox'') (\<lambda>_.
     then_do (readConfigItem w DEFAULTSECT ''sheetName'' ''Attendance sheet name: ''
                ''Attendance'') (\<lambda>_.
     then_do (\<lambda>st. readConfigItem w (server st) ''email''
                ''Trail Life Connect username: '' ''user@example.com'' st) (\<lambda>_.
     then_do (\<lambda>st. readConfigItem w (server st) ''initial_wait_secs''
                ''Time to wait for website in seconds: '' ''30'' st) (\<lambda>_.
     write_config w)))))) sA = (Inr (), st')"
    by (rule then_do_unitE)
  from ra obtain s1 where
      b: "readConfigItem w DEFAULTSECT ''server'' ''Trail Life Connect website: ''
            ''www.traillifeconnect.com'' sA = (Inr (), s1)" and rb: "
     then_do (\<lambda>st. ok () (setURLs st)) (\<lambda>_.
     then_do (readConfigItem w DEFAULTSECT ''browser''
                ''Web browser to use (Firefox, Chrome, Edge): '' ''Firefox'') (\<lambda>_.
     then_do (readConfigItem w DEFAULTSECT ''sheetName'' ''Attendance sheet name: ''
                ''Attendance'') (\<lambda>_.
     then_do (\<lambda>st. readConfigItem w (server st) ''email''
                ''Trail Life Connect username: '' ''user@example.com'' st) (\<lambda>_.
     then_do (\<lambda>st. readConfigItem w (server st) ''initial_wait_secs''
                ''Time to wait for website in seconds: '' ''30'' st) (\<lambda>_.
     write_config w))))) s1 = (Inr (), st')"
    by (rule then_do_unitE)
  from rb obtain s1' where
      u: "ok () (setURLs s1) = (Inr (), s1')" and rc: "
     then_do (readConfigItem w DEFAULTSECT ''browser''
                ''Web browser to use (Firefox, Chrome, Edge): '' ''Firefox'') (\<lambda>_.
     then_do (readConfigItem w DEFAULTSECT ''sheetName'' ''Attendance sheet name: ''
                ''Attendance'') (\<lambda>_.
     then_do (\<lambda>st. readConfigItem w (server st) ''email''
                ''Trail Life Connect username: '' ''user@example.com'' st) (\<lambda>_.
     then_do (\<lambda>st. readConfigItem w (server st) ''initial_wait_secs''
                ''Time to wait for website in seconds: '' ''30'' st) (\<lambda>_.
     write_config w)))) s1' = (Inr (), st')"
    by (rule then_do_unitE)
  from u have s1': "s1' = setURLs s1" by (simp add: ok_def)
  from rc obtain s2 where
      c: "readConfigItem w DEFAULTSECT ''browser''
            ''Web browser to use (Firefox, Chrome, Edge): '' ''Firefox'' s1' = (Inr (), s2)"
      and rd: "
     then_do (readConfigItem w DEFAULTSECT ''sheetName'' ''Attendance sheet name: ''
                ''Attendance'') (\<lambda>_.
     then_do (\<lambda>st. readConfigItem w (server st) ''email''
                ''Trail Life Connect username: '' ''user@example.com'' st) (\<lambda>_.
     then_do (\<lambda>st. readConfigItem w (server st) ''initial_wait_secs''
                ''Time to wait for website in seconds: '' ''30'' st) (\<lambda>_.
     write_config w))) s2 = (Inr (), st')"
    by (rule then_do_unitE)
  from rd obtain s3 where
      d: "readConfigItem w DEFAULTSECT ''sheetName'' ''Attendance sheet name: ''
            ''Attendance'' s2 = (Inr (), s3)"
      and re: "
     then_do (\<lambda>st. readConfigItem w (server st) ''email''
                ''Trail Life Connect username: '' ''user@example.com'' st) (\<lambda>_.
     then_do (\<lambda>st. readConfigItem w (server st) ''initial_wait_secs''
                ''Time to wait for website in seconds: '' ''30'' st) (\<lambda>_.
     write_config w)) s3 = (Inr (), st')"
    by (rule then_do_unitE)
  from re obtain s4 where
      e: "readConfigItem w (server s3) ''email'' ''Trail Life Connect username: ''
            ''user@example.com'' s3 = (Inr (), s4)"
      and rf: "
     then_do (\<lambda>st. readConfigItem w (server st) ''initial_wait_secs''
                ''Time to wait for website in seconds: '' ''30'' st) (\<lambda>_.
     write_config w) s4 = (Inr (), st')"
    by (rule then_do_unitE)
  from rf obtain s5 where
      f: "readConfigItem w (server s4) ''initial_wait_secs''
            ''Time to wait for website in seconds: '' ''30'' s4 = (Inr (), s5)"
      and g: "write_config w s5 = (Inr (), st')"
    by (rule then_do_unitE)
  from a b c [unfolded s1'] d e f g show ?thesis by (rule that)
qed


lemma optionxform_distinct:
  "optionxform ''browser'' \<noteq> optionxform ''server''"
  "optionxform ''sheetName'' \<noteq> optionxform ''server''"
  "optionxform ''sheetName'' \<noteq> optionxform ''browser''"
  "optionxform ''email'' \<noteq> optionxform ''server''"
  "optionxform ''email'' \<noteq> optionxform ''browser''"
  "optionxform ''email'' \<noteq> optionxform ''sheetName''"
  "optionxform ''initial_wait_secs'' \<noteq> optionxform ''server''"
  "optionxform ''initial_wait_secs'' \<noteq> optionxform ''browser''"
  "optionxform ''initial_wait_secs'' \<noteq> optionxform ''sheetName''"
  "optionxform ''initial_wait_secs'' \<noteq> optionxform ''email''"
  by (simp_all add: optionxform_names)

text \<open>
  C3, as amended. Let the config file parse to \<open>c0\<close> and let \<^verbatim>\<open>readConfig\<close> return. Then
  the prompts put to the operator are, in order, exactly those of the recognized keys that
  are neither in the key's own section of the file nor in its \<^verbatim>\<open>DEFAULT\<close> section (names
  compared in lower case; the section of \<^verbatim>\<open>email\<close> and \<^verbatim>\<open>initial_wait_secs\<close> is the one named
  by the resolved server); the config file is written, once and with the resolved content,
  if and only if at least one key was prompted for; and every key/value pair of the file
  has the same value in the resolved content.
\<close>

theorem readConfig_resolution:
  assumes "config_file w (arg_config (args st)) = Inr c0"
      and "readConfig w st = (Inr (), st')"
  shows "inputs (drop (length (trace st)) (trace st'))
           = map (\<lambda>(s, k, p). p)
               (filter (\<lambda>(s, k, p). \<not> visible c0 s k) (config_items (server st')))
       \<and> config_writes (drop (length (trace st)) (trace st'))
           = (if inputs (drop (length (trace st)) (trace st')) = [] then []
              else [(arg_config (args st), config st')])
       \<and> (file_value c0 s k = Some v \<longrightarrow> file_value (config st') s k = Some v)"
proof -
  from assms(2) obtain sA s1 s2 s3 s4 s5 where
      a: "open_config w st = (Inr (), sA)"
    and b: "readConfigItem w DEFAULTSECT ''server'' ''Trail Life Connect website: ''
       ''www.traillifeconnect.com'' sA = (Inr (), s1)"
    and c: "readConfigItem w DEFAULTSECT ''browser''
       ''Web browser to use (Firefox, Chrome, Edge): '' ''Firefox'' (setURLs s1) = (Inr (), s2)"
    and d: "readConfigItem w DEFAULTSECT ''sheetName'' ''Attendance sheet name: ''
       ''Attendance'' s2 = (Inr (), s3)"
    and e: "readConfigItem w (server s3) ''email'' ''Trail Life Connect username: ''
       ''user@example.com'' s3 = (Inr (), s4)"
    and f: "readConfigItem w (server s4) ''initial_wait_secs''
       ''Time to wait for website in seconds: '' ''30'' s4 = (Inr (), s5)"
    and g: "write_config w s5 = (Inr (), st')"
    by (rule readConfig_steps)
  note oa = open_config_effect [OF a assms(1)]
  note eb = readConfigItem_effect [OF b]
  note ec = readConfigItem_effect [OF c]
  note ed = readConfigItem_effect [OF d]
  note ee = readConfigItem_effect [OF e]
  note ef = readConfigItem_effect [OF f]
  note wg = write_config_effect [OF g]
  \<comment> \<open>the server name is fixed once the first key is resolved\<close>
  have srv3: "server s3 = server st'" and srv4: "server s4 = server st'"
    using ee(6) ef(6) wg(3) by simp_all
  \<comment> \<open>each key is looked for in a config that shows it exactly as the file does\<close>
  have v1: "visible (config sA) DEFAULTSECT ''server'' = visible c0 DEFAULTSECT ''server''"
    by (simp add: oa(2))
  have v2: "visible (config (setURLs s1)) DEFAULTSECT ''browser''
              = visible c0 DEFAULTSECT ''browser''"
    using eb(4) [OF optionxform_distinct(1)] by (simp add: setURLs_frame oa(2))
  have v3: "visible (config s2) DEFAULTSECT ''sheetName'' = visible c0 DEFAULTSECT ''sheetName''"
    using ec(4) [OF optionxform_distinct(3)] eb(4) [OF optionxform_distinct(2)]
    by (simp add: setURLs_frame oa(2))
  have v4: "visible (config s3) (server s3) ''email'' = visible c0 (server st') ''email''"
    using ed(4) [OF optionxform_distinct(6)] ec(4) [OF optionxform_distinct(5)]
      eb(4) [OF optionxform_distinct(4)]
    by (simp add: setURLs_frame oa(2) srv3)
  have v5: "visible (config s4) (server s4) ''initial_wait_secs''
              = visible c0 (server st') ''initial_wait_secs''"
    using ee(4) [OF optionxform_distinct(10)] ed(4) [OF optionxform_distinct(9)]
      ec(4) [OF optionxform_distinct(8)] eb(4) [OF optionxform_distinct(7)]
    by (simp add: setURLs_frame oa(2) srv4)
  \<comment> \<open>the trace, step by step\<close>
  obtain ev1 where t1: "trace s1 = trace sA @ ev1"
      "inputs ev1 = (if visible c0 DEFAULTSECT ''server'' then []
                     else [''Trail Life Connect website: ''])"
      "config_writes ev1 = []"
    using eb(1) v1 by auto
  obtain ev2 where t2: "trace s2 = trace s1 @ ev2"
      "inputs ev2 = (if visible c0 DEFAULTSECT ''browser'' then []
                     else [''Web browser to use (Firefox, Chrome, Edge): ''])"
      "config_writes ev2 = []"
    using ec(1) v2 by (auto simp: setURLs_frame)
  obtain ev3 where t3: "trace s3 = trace s2 @ ev3"
      "inputs ev3 = (if visible c0 DEFAULTSECT ''sheetName'' then []
                     else [''Attendance sheet name: ''])"
      "config_writes ev3 = []"
    using ed(1) v3 by auto
  obtain ev4 where t4: "trace s4 = trace s3 @ ev4"
      "inputs ev4 = (if visible c0 (server st') ''email'' then []
                     else [''Trail Life Connect username: ''])"
      "config_writes ev4 = []"
    using ee(1) v4 by auto
  obtain ev5 where t5: "trace s5 = trace s4 @ ev5"
      "inputs ev5 = (if visible c0 (server st') ''initial_wait_secs'' then []
                     else [''Time to wait for website in seconds: ''])"
      "config_writes ev5 = []"
    using ef(1) v5 by auto
  obtain ev6 where t6: "trace st' = trace s5 @ ev6" "inputs ev6 = []"
      "config_writes ev6
         = (if configChanged s5 then [(arg_config (args s5), config s5)] else [])"
    using wg(1) by auto
  have new: "drop (length (trace st)) (trace st')
               = ReadConfigFile (arg_config (args st)) # ev1 @ ev2 @ ev3 @ ev4 @ ev5 @ ev6"
    by (simp add: t1(1) t2(1) t3(1) t4(1) t5(1) t6(1) oa(1))
  have changed: "configChanged s5
      = (\<not> visible c0 DEFAULTSECT ''server'' \<or> \<not> visible c0 DEFAULTSECT ''browser''
         \<or> \<not> visible c0 DEFAULTSECT ''sheetName'' \<or> \<not> visible c0 (server st') ''email''
         \<or> \<not> visible c0 (server st') ''initial_wait_secs'')"
    using eb(2) ec(2) ed(2) ee(2) ef(2) oa(3) v1 v2 v3 v4 v5
    by (auto simp: setURLs_frame)
  have args5: "args s5 = args st"
    using eb(3) ec(3) ed(3) ee(3) ef(3) oa(4) by (simp add: setURLs_frame)
  have ins: "inputs (drop (length (trace st)) (trace st'))
           = map (\<lambda>(s, k, p). p)
               (filter (\<lambda>(s, k, p). \<not> visible c0 s k) (config_items (server st')))"
    by (simp add: new inputs_append t1(2) t2(2) t3(2) t4(2) t5(2) t6(2) config_items_def)
  have wr: "config_writes (drop (length (trace st)) (trace st'))
           = (if configChanged s5 then [(arg_config (args st), config st')] else [])"
    by (simp add: new config_writes_append t1(3) t2(3) t3(3) t4(3) t5(3) t6(3) args5 wg(2))
  have ch: "configChanged s5 = (inputs (drop (length (trace st)) (trace st')) \<noteq> [])"
    by (simp add: new inputs_append t1(2) t2(2) t3(2) t4(2) t5(2) t6(2) changed)
  have keep: "file_value (config st') s k = Some v" if "file_value c0 s k = Some v"
  proof -
    from that have "file_value (config sA) s k = Some v" by (simp add: oa(2))
    then have "file_value (config s1) s k = Some v" by (rule eb(5))
    then have "file_value (config (setURLs s1)) s k = Some v" by (simp add: setURLs_frame)
    then have "file_value (config s2) s k = Some v" by (rule ec(5))
    then have "file_value (config s3) s k = Some v" by (rule ed(5))
    then have "file_value (config s4) s k = Some v" by (rule ee(5))
    then have "file_value (config s5) s k = Some v" by (rule ef(5))
    then show ?thesis by (simp add: wg(2))
  qed
  from ins wr ch keep show ?thesis by simp
qed


lemma partial_run:
  "fst (readConfig (portal_world partial_config wb pgs ms cs) (init run_args)) = Inr ()"
  "server (snd (readConfig (portal_world partial_config wb pgs ms cs) (init run_args)))
     = ''tlc.example''"
  "file_value (config (snd (readConfig (portal_world partial_config wb pgs ms cs)
     (init run_args)))) ''tlc.example'' ''browser'' = None"
  by (simp_all add: config_defs seq_defs portal_defs partial_config_def init_def run_args_def
        file_value_def)

lemma partial_visible:
  "visible partial_config DEFAULTSECT ''server''"
  "\<not> visible partial_config DEFAULTSECT ''browser''"
  "\<not> visible partial_config DEFAULTSECT ''sheetName''"
  "visible partial_config ''tlc.example'' ''email''"
  "\<not> visible partial_config ''tlc.example'' ''initial_wait_secs''"
  by (simp_all add: visible_def own_option_def partial_config_def optionxform_names
        DEFAULTSECT_def)

theorem readConfig_resolution_witness:
  "config_file (portal_world partial_config two_book (redirect_at 6) [] [])
     (arg_config (args (init run_args))) = Inr partial_config
   \<and> fst (readConfig (portal_world partial_config two_book (redirect_at 6) [] []) (init run_args))
       = Inr ()
   \<and> inputs (drop (length (trace (init run_args)))
        (trace (snd (readConfig (portal_world partial_config two_book (redirect_at 6) [] [])
           (init run_args)))))
       = [''Web browser to use (Firefox, Chrome, Edge): '', ''Attendance sheet name: '',
          ''Time to wait for website in seconds: '']
   \<and> config_writes (drop (length (trace (init run_args)))
        (trace (snd (readConfig (portal_world partial_config two_book (redirect_at 6) [] [])
           (init run_args)))))
       = [(''./.config.ini'',
           config (snd (readConfig (portal_world partial_config two_book (redirect_at 6) [] [])
             (init run_args))))]
   \<and> file_value partial_config ''tlc.example'' ''email'' = Some ''leader@tlc.example''
   \<and> file_value (config (snd (readConfig (portal_world partial_config two_book
          (redirect_at 6) [] []) (init run_args)))) ''tlc.example'' ''email'' = Some ''leader@tlc.example''"
proof -
  let ?W = "portal_world partial_config two_book (redirect_at 6) [] []"
  have h1: "config_file ?W (arg_config (args (init run_args))) = Inr partial_config"
    by (simp add: portal_world_def)
  have h2: "readConfig ?W (init run_args) = (Inr (), snd (readConfig ?W (init run_args)))"
    using partial_run(1) [of two_book "redirect_at 6" "[]" "[]"] by (simp add: prod_eq_iff)
  have fv: "file_value partial_config ''tlc.example'' ''email'' = Some ''leader@tlc.example''"
    by (simp add: file_value_def partial_config_def DEFAULTSECT_def)
  have path: "arg_config (args (init run_args)) = ''./.config.ini''"
    by (simp add: init_def run_args_def)
  show ?thesis
    using readConfig_resolution [OF h1 h2, of "''tlc.example''" "''email''"
            "''leader@tlc.example''"]
      h1 fv partial_run(1,2) [of two_book "redirect_at 6" "[]" "[]"]
    by (simp add: config_items_def partial_visible path)
qed

lemma inherit_run:
  "fst (readConfig (portal_world inherit_config wb pgs ms cs) (init run_args)) = Inr ()"
  "server (snd (readConfig (portal_world inherit_config wb pgs ms cs) (init run_args)))
     = ''tlc.example''"
  "email (snd (readConfig (portal_world inherit_config wb pgs ms cs) (init run_args)))
     = ''leader@tlc.example''"
  "inputs (drop (length (trace (init run_args)))
     (trace (snd (readConfig (portal_world inherit_config wb pgs ms cs) (init run_args)))))
     = [''Time to wait for website in seconds: '']"
  by (simp_all add: config_defs seq_defs portal_defs inherit_config_def init_def run_args_def)

text \<open>
  C3 as stated fails on the prompts: an option of the \<^verbatim>\<open>DEFAULT\<close> section is visible in
  every section. With \<^verbatim>\<open>email\<close> under \<^verbatim>\<open>DEFAULT\<close> and no section of the server's name in
  the file, \<^verbatim>\<open>email\<close> is absent from its relevant section and yet is not prompted for:
  the only prompt is the one for \<^verbatim>\<open>initial_wait_secs\<close>.
\<close>

theorem readConfig_inherited_key_counterexample:
  "\<not> own_option inherit_config ''tlc.example'' ''email''
   \<and> fst (readConfig (portal_world inherit_config two_book (redirect_at 6) [] []) (init run_args))
       = Inr ()
   \<and> server (snd (readConfig (portal_world inherit_config two_book (redirect_at 6) [] [])
        (init run_args))) = ''tlc.example''
   \<and> inputs (drop (length (trace (init run_args)))
        (trace (snd (readConfig (portal_world inherit_config two_book (redirect_at 6) [] [])
           (init run_args)))))
       = [''Time to wait for website in seconds: '']
   \<and> inputs (drop (length (trace (init run_args)))
        (trace (snd (readConfig (portal_world inherit_config two_book (redirect_at 6) [] [])
           (init run_args)))))
       \<noteq> map (\<lambda>(s, k, p). p)
           (filter (\<lambda>(s, k, p). \<not> own_option inherit_config s k)
              (config_items ''tlc.example''))"
proof -
  have own: "own_option inherit_config DEFAULTSECT ''server''"
      "own_option inherit_config DEFAULTSECT ''browser''"
      "own_option inherit_config DEFAULTSECT ''sheetName''"
      "\<not> own_option inherit_config ''tlc.example'' ''email''"
      "\<not> own_option inherit_config ''tlc.example'' ''initial_wait_secs''"
    by (simp_all add: own_option_def inherit_config_def optionxform_names DEFAULTSECT_def)
  show ?thesis
    using inherit_run [of two_book "redirect_at 6" "[]" "[]"]
    by (simp add: config_items_def own)
qed


end
